theory Spec2Isabelle
  imports Main "HOL-Library.Word" "HOL-Library.Multiset" "HOL-Library.Sublist"
begin

section \<open>The CryptonightR kernel generator and program cache (OclCryptonightR_gen.cpp)\<close>

subsection \<open>Handles, instructions and cache entries\<close>

text \<open>
  OpenCL handles (\<open>cl_program\<close>, \<open>cl_kernel\<close>) are opaque pointers. A valid handle is a
  number; a nullable handle is an \<open>option\<close>, with \<open>None\<close> for \<open>nullptr\<close>.
  \<open>cl_int\<close> status codes are integers and \<open>CL_SUCCESS\<close> is 0.
\<close>

type_synonym handle = nat
type_synonym cl_program = "handle option"
type_synonym cl_kernel = "handle option"
type_synonym cl_int = int
type_synonym uint64_t = "64 word"
type_synonym uint32_t = "32 word"

definition CL_SUCCESS :: cl_int where
  "CL_SUCCESS = 0"

text \<open>
  Modelled from the spec: the header that declares \<open>V4_Instruction\<close> and the opcode
  enumeration (crypto/CryptoNight_monero.h) is not among the sources. The six opcodes are
  the ones \<open>get_code\<close> switches on; \<open>OTHER_OPCODE\<close> stands for every other value of the
  opcode field. \<open>get_code\<close> converts both register indices to \<open>uint32_t\<close> before it
  prints them, so the fields are kept at that width.
\<close>

datatype V4_opcode = MUL | ADD | SUB | ROR | ROL | XOR | OTHER_OPCODE nat

record V4_Instruction =
  opcode :: V4_opcode
  dst_index :: uint32_t
  src_index :: uint32_t
  C :: uint32_t

text \<open>
  Modelled from the spec: \<open>xmrig::Variant\<close> is declared outside the sources. The two
  variants that \<open>CryptonightR_get_program\<close> accepts are constructors; every other
  enumerator is \<open>VARIANT_OTHER\<close> with its integer value.
\<close>

datatype Variant = VARIANT_WOW | VARIANT_4 | VARIANT_OTHER int

record CacheEntry =
  variant :: Variant
  height :: uint64_t
  deviceIdx :: nat
  hash :: string
  program :: handle

text \<open>The fields of \<open>GpuContext\<close> that this file reads or writes.\<close>

record GpuContext =
  ctx_deviceIdx :: nat
  platformIdx :: nat
  DeviceID :: nat
  opencl_ctx :: nat
  DeviceString :: string
  ProgramCryptonightR :: cl_program

subsection \<open>Output streams\<close>

text \<open>
  \<open>std::stringstream\<close> is the string written so far. \<open>operator<<\<close> appends a character,
  a string literal, or the decimal digits of an unsigned integer.
\<close>

definition digit_char :: "nat \<Rightarrow> char" where
  "digit_char d = ''0123456789'' ! (d mod 10)"

function decimal :: "nat \<Rightarrow> string" where
  "decimal n = (if n < 10 then [digit_char n] else decimal (n div 10) @ [digit_char (n mod 10)])"
  by pat_completeness auto
termination
  by (relation "measure (\<lambda>n. n)") auto

declare decimal.simps [simp del]

definition put_char :: "string \<Rightarrow> char \<Rightarrow> string" where
  "put_char s c = s @ [c]"

definition put_str :: "string \<Rightarrow> string \<Rightarrow> string" where
  "put_str s t = s @ t"

definition put_uint :: "string \<Rightarrow> uint32_t \<Rightarrow> string" where
  "put_uint s n = s @ decimal (unat n)"

definition newline :: char where
  "newline = CHR 0x0A"

subsection \<open>\<open>get_code\<close>: instructions to kernel source\<close>

text \<open>The body of the \<open>switch\<close> (lines 24 to 46): what one instruction writes to the stream.\<close>

definition put_instruction :: "string \<Rightarrow> V4_Instruction \<Rightarrow> string" where
  "put_instruction s inst =
     (let a = dst_index inst; b = src_index inst in
      case opcode inst of
        MUL \<Rightarrow> put_char (put_uint (put_str (put_uint (put_char s CHR ''r'') a) ''*=r'') b) CHR '';''
      | ADD \<Rightarrow> put_str (put_uint (put_char (put_uint (put_str (put_uint (put_char s CHR ''r'') a)
                 ''+=r'') b) CHR ''+'') (C inst)) ''U;''
      | SUB \<Rightarrow> put_char (put_uint (put_str (put_uint (put_char s CHR ''r'') a) ''-=r'') b) CHR '';''
      | ROR \<Rightarrow> put_str (put_uint (put_str (put_uint (put_str (put_uint (put_char s CHR ''r'') a)
                 ''=rotate(r'') a) '',ROT_BITS-r'') b) '');''
      | ROL \<Rightarrow> put_str (put_uint (put_str (put_uint (put_str (put_uint (put_char s CHR ''r'') a)
                 ''=rotate(r'') a) '',r'') b) '');''
      | XOR \<Rightarrow> put_char (put_uint (put_str (put_uint (put_char s CHR ''r'') a) ''^=r'') b) CHR '';''
      | OTHER_OPCODE _ \<Rightarrow> s)"

text \<open>
  The \<open>for\<close> loop of \<open>get_code\<close>, with the counter \<open>i\<close> and the stream \<open>s\<close> as
  arguments. \<open>code\<close> holds the instructions of the array and \<open>code_size\<close> is the
  \<open>int\<close> the caller passes.
\<close>

function get_code_loop :: "V4_Instruction list \<Rightarrow> int \<Rightarrow> int \<Rightarrow> string \<Rightarrow> string" where
  "get_code_loop code code_size i s =
     (if i < code_size
      then get_code_loop code code_size (i + 1)
             (put_char (put_instruction s (code ! nat i)) newline)
      else s)"
  by pat_completeness auto
termination
  by (relation "measure (\<lambda>(code, code_size, i, s). nat (code_size - i))") auto

declare get_code_loop.simps [simp del]

definition get_code :: "V4_Instruction list \<Rightarrow> int \<Rightarrow> string" where
  "get_code code code_size = get_code_loop code code_size 0 []"

text \<open>
  The statement the specification gives for each instruction (section 4.1), written from
  the specification's words, to be compared with \<open>get_code\<close>.
\<close>

definition reg :: "uint32_t \<Rightarrow> string" where
  "reg i = CHR ''r'' # decimal (unat i)"

definition spec_statement :: "V4_Instruction \<Rightarrow> string" where
  "spec_statement inst =
     (case opcode inst of
        MUL \<Rightarrow> reg (dst_index inst) @ ''*='' @ reg (src_index inst) @ '';''
      | ADD \<Rightarrow> reg (dst_index inst) @ ''+='' @ reg (src_index inst) @ ''+''
                 @ decimal (unat (C inst)) @ ''U'' @ '';''
      | SUB \<Rightarrow> reg (dst_index inst) @ ''-='' @ reg (src_index inst) @ '';''
      | ROL \<Rightarrow> reg (dst_index inst) @ ''=rotate('' @ reg (dst_index inst) @ '',''
                 @ reg (src_index inst) @ '')'' @ '';''
      | ROR \<Rightarrow> reg (dst_index inst) @ ''=rotate('' @ reg (dst_index inst) @ '',''
                 @ ''ROT_BITS-'' @ reg (src_index inst) @ '')'' @ '';''
      | XOR \<Rightarrow> reg (dst_index inst) @ ''^='' @ reg (src_index inst) @ '';''
      | OTHER_OPCODE _ \<Rightarrow> [])"

subsection \<open>Shared state and observable calls\<close>

text \<open>
  The file keeps its state in static variables: the program cache, the queue of
  background tasks and the pointer to the background thread. Calls that leave the file
  (the OpenCL library, the log) and the taking and dropping of each \<open>std::lock_guard\<close>
  are recorded, in order, in \<open>trace\<close>.
\<close>

datatype mutex = CryptonightR_cache_mutex | CryptonightR_build_mutex | background_tasks_mutex

datatype event =
    Lock mutex
  | Unlock mutex
  | ReleaseProgram cl_program
  | ReleaseKernel handle
  | CreateProgramWithSource nat string
  | BuildProgram handle nat string
  | WaitBuild handle nat
  | LOG_ERR string
  | StartThread

record BackgroundTask =
  task_ctx :: GpuContext
  task_variant :: Variant
  task_height :: uint64_t
  task_old_kernel :: cl_kernel

record state =
  CryptonightR_cache :: "CacheEntry list"
  background_tasks :: "BackgroundTask list"
  background_thread :: bool
  trace :: "event list"

definition emit :: "event \<Rightarrow> state \<Rightarrow> state" where
  "emit e s = s\<lparr>trace := trace s @ [e]\<rparr>"

text \<open>
  What the file uses and does not define. \<open>source_code_template\<close> is the text of the two
  included kernel files; \<open>PRECOMPILATION_DEPTH\<close> is a macro of the header, at the width
  of the \<open>uint64_t\<close> sum it is used in; \<open>variant_int\<close> is \<open>static_cast<int>\<close> on the
  enumeration. \<open>v4_random_math_init\<close> gives the contents of the array \<open>code\<close> and the
  returned \<open>code_size\<close>. \<open>get_device_string\<close> gives its result and the new contents of
  the string it writes to. \<open>createProgramWithSource\<close> follows the OpenCL contract: a
  status other than \<open>CL_SUCCESS\<close> (\<open>Inl\<close>) or a valid handle (\<open>Inr\<close>).
\<close>

record externals =
  source_code_template :: string
  PRECOMPILATION_DEPTH :: uint64_t
  variant_int :: "Variant \<Rightarrow> int"
  v4_random_math_init :: "Variant \<Rightarrow> uint64_t \<Rightarrow> V4_Instruction list \<times> int"
  getOptions :: "Variant \<Rightarrow> GpuContext \<Rightarrow> string"
  get_device_string :: "nat \<Rightarrow> nat \<Rightarrow> string \<Rightarrow> bool \<times> string"
  calc_hash :: "string \<Rightarrow> string \<Rightarrow> string \<Rightarrow> string"
  createProgramWithSource :: "nat \<Rightarrow> string \<Rightarrow> cl_int + handle"
  buildProgram :: "handle \<Rightarrow> nat \<Rightarrow> string \<Rightarrow> cl_int"
  wait_build :: "handle \<Rightarrow> nat \<Rightarrow> cl_int"
  OclError_toString :: "cl_int \<Rightarrow> string"

subsection \<open>\<open>background_exec\<close>\<close>

text \<open>
  The task is queued under the task lock and the worker thread is started on the first
  submission. The worker's endless loop runs on its own thread and is not part of this
  sequential model.
\<close>

definition background_exec :: "BackgroundTask \<Rightarrow> state \<Rightarrow> state" where
  "background_exec task s =
     (let s1 = emit (Lock background_tasks_mutex) s;
          s2 = s1\<lparr>background_tasks := background_tasks s1 @ [task]\<rparr>;
          s3 = (if \<not> background_thread s2
                then emit StartThread (s2\<lparr>background_thread := True\<rparr>)
                else s2)
      in emit (Unlock background_tasks_mutex) s3)"

subsection \<open>\<open>CryptonightR_release\<close>\<close>

text \<open>
  The loop of lines 132 to 145: an entry of the device is overwritten by the last entry
  and the vector shrinks by one; nothing else happens to the entry.
\<close>

function release_loop :: "nat \<Rightarrow> nat \<Rightarrow> CacheEntry list \<Rightarrow> CacheEntry list" where
  "release_loop dev i cache =
     (if i < length cache
      then (if deviceIdx (cache ! i) = dev
            then release_loop dev i (butlast (cache[i := last cache]))
            else release_loop dev (Suc i) cache)
      else cache)"
  by pat_completeness auto
termination
  by (relation "measure (\<lambda>(dev, i, cache). length cache - i)") auto

declare release_loop.simps [simp del]

definition CryptonightR_release :: "GpuContext \<Rightarrow> state \<Rightarrow> state" where
  "CryptonightR_release ctx s =
     (let s1 = emit (ReleaseProgram (ProgramCryptonightR ctx)) s;
          s2 = emit (Lock CryptonightR_cache_mutex) s1;
          s3 = s2\<lparr>CryptonightR_cache :=
                  release_loop (ctx_deviceIdx ctx) 0 (CryptonightR_cache s2)\<rparr>
      in emit (Unlock CryptonightR_cache_mutex) s3)"

subsection \<open>\<open>CryptonightR_build_program\<close>\<close>

text \<open>The test of line 170, in \<open>uint64_t\<close> arithmetic.\<close>

definition is_old :: "Variant \<Rightarrow> uint64_t \<Rightarrow> uint64_t \<Rightarrow> CacheEntry \<Rightarrow> bool" where
  "is_old v h depth entry \<longleftrightarrow> variant entry = v \<and> height entry + depth < h"

text \<open>The loop of lines 167 to 181, with \<open>old_programs\<close> as the last argument.\<close>

function remove_old_loop ::
  "Variant \<Rightarrow> uint64_t \<Rightarrow> uint64_t \<Rightarrow> nat \<Rightarrow> CacheEntry list \<Rightarrow> handle list
   \<Rightarrow> CacheEntry list \<times> handle list" where
  "remove_old_loop v h depth i cache old_programs =
     (if i < length cache
      then (if is_old v h depth (cache ! i)
            then remove_old_loop v h depth i (butlast (cache[i := last cache]))
                   (old_programs @ [program (cache ! i)])
            else remove_old_loop v h depth (Suc i) cache old_programs)
      else (cache, old_programs))"
  by pat_completeness auto
termination
  by (relation "measure (\<lambda>(v, h, depth, i, cache, old_programs). length cache - i)") auto

declare remove_old_loop.simps [simp del]

text \<open>The four-field comparison of lines 197 and 311, and the scan that stops at the first match.\<close>

definition key_matches :: "Variant \<Rightarrow> uint64_t \<Rightarrow> nat \<Rightarrow> string \<Rightarrow> CacheEntry \<Rightarrow> bool" where
  "key_matches v h dev hs entry \<longleftrightarrow>
     variant entry = v \<and> height entry = h \<and> deviceIdx entry = dev \<and> hash entry = hs"

definition cache_lookup ::
  "Variant \<Rightarrow> uint64_t \<Rightarrow> nat \<Rightarrow> string \<Rightarrow> CacheEntry list \<Rightarrow> CacheEntry option" where
  "cache_lookup v h dev hs cache = find (key_matches v h dev hs) cache"

text \<open>Lines 157 to 186: the outgoing kernel, the removal under the cache lock, the releases after it.\<close>

definition release_old_kernel :: "cl_kernel \<Rightarrow> state \<Rightarrow> state" where
  "release_old_kernel old_kernel s =
     (case old_kernel of None \<Rightarrow> s | Some k \<Rightarrow> emit (ReleaseKernel k) s)"

definition remove_old_programs :: "externals \<Rightarrow> Variant \<Rightarrow> uint64_t \<Rightarrow> state \<Rightarrow> state" where
  "remove_old_programs ext v h s =
     (let s1 = emit (Lock CryptonightR_cache_mutex) s;
          (cache', old_programs) =
             remove_old_loop v h (PRECOMPILATION_DEPTH ext) 0 (CryptonightR_cache s1) [];
          s2 = emit (Unlock CryptonightR_cache_mutex) (s1\<lparr>CryptonightR_cache := cache'\<rparr>)
      in foldl (\<lambda>s p. emit (ReleaseProgram (Some p)) s) s2 old_programs)"

text \<open>
  Lines 209 to 241, run with the build lock held and the cache lock free. Every
  \<open>return\<close> drops the build lock.
\<close>

definition compile_program ::
  "externals \<Rightarrow> GpuContext \<Rightarrow> Variant \<Rightarrow> uint64_t \<Rightarrow> string \<Rightarrow> string \<Rightarrow> string \<Rightarrow> state
   \<Rightarrow> cl_program \<times> state" where
  "compile_program ext ctx v h source options hs s =
     (let s1 = emit (CreateProgramWithSource (opencl_ctx ctx) source) s in
      case createProgramWithSource ext (opencl_ctx ctx) source of
        Inl ret \<Rightarrow>
          (None, emit (Unlock CryptonightR_build_mutex)
             (emit (LOG_ERR (''CryptonightR: clCreateProgramWithSource returned error ''
                             @ OclError_toString ext ret)) s1))
      | Inr p \<Rightarrow>
          (let s2 = emit (BuildProgram p (DeviceID ctx) options) s1;
               ret = buildProgram ext p (DeviceID ctx) options
           in if ret \<noteq> CL_SUCCESS
              then (None, emit (Unlock CryptonightR_build_mutex)
                      (emit (LOG_ERR (''CryptonightR: clBuildProgram returned error ''
                                      @ OclError_toString ext ret))
                         (emit (ReleaseProgram (Some p)) s2)))
              else
                (let s3 = emit (WaitBuild p (DeviceID ctx)) s2;
                     ret = wait_build ext p (DeviceID ctx)
                 in if ret \<noteq> CL_SUCCESS
                    then (None, emit (Unlock CryptonightR_build_mutex)
                            (emit (LOG_ERR (''CryptonightR: wait_build returned error ''
                                            @ OclError_toString ext ret))
                               (emit (ReleaseProgram (Some p)) s3)))
                    else
                      (let s4 = emit (Lock CryptonightR_cache_mutex) s3;
                           s5 = s4\<lparr>CryptonightR_cache := CryptonightR_cache s4 @
                                  [\<lparr>variant = v, height = h, deviceIdx = ctx_deviceIdx ctx,
                                    hash = hs, program = p\<rparr>]\<rparr>;
                           s6 = emit (Unlock CryptonightR_cache_mutex) s5
                       in (Some p, emit (Unlock CryptonightR_build_mutex) s6)))))"

definition CryptonightR_build_program ::
  "externals \<Rightarrow> GpuContext \<Rightarrow> Variant \<Rightarrow> uint64_t \<Rightarrow> cl_kernel \<Rightarrow> string \<Rightarrow> string \<Rightarrow> string
   \<Rightarrow> state \<Rightarrow> cl_program \<times> state" where
  "CryptonightR_build_program ext ctx v h old_kernel source options hs s =
     (let s1 = release_old_kernel old_kernel s;
          s2 = remove_old_programs ext v h s1;
          s3 = emit (Lock CryptonightR_build_mutex) s2;
          s4 = emit (Lock CryptonightR_cache_mutex) s3;
          found = cache_lookup v h (ctx_deviceIdx ctx) hs (CryptonightR_cache s4);
          s5 = emit (Unlock CryptonightR_cache_mutex) s4
      in case found of
           Some entry \<Rightarrow> (Some (program entry), emit (Unlock CryptonightR_build_mutex) s5)
         | None \<Rightarrow> compile_program ext ctx v h source options hs s5)"

subsection \<open>\<open>CryptonightR_get_program\<close>\<close>

definition include_name :: string where
  "include_name = ''XMRIG_INCLUDE_RANDOM_MATH''"

text \<open>\<open>strstr\<close>: the offset of the first occurrence of the needle, \<open>None\<close> for a null result.\<close>

fun strstr :: "string \<Rightarrow> string \<Rightarrow> nat option" where
  "strstr [] needle = (if needle = [] then Some 0 else None)"
| "strstr (c # cs) needle =
     (if prefix needle (c # cs) then Some 0 else map_option Suc (strstr cs needle))"

definition is_64bit :: "Variant \<Rightarrow> bool" where
  "is_64bit v = False"

text \<open>\<open>%d\<close> of \<open>snprintf\<close> and of the log.\<close>

definition decimal_int :: "int \<Rightarrow> string" where
  "decimal_int i = (if i < 0 then CHR ''-'' # decimal (nat (- i)) else decimal (nat i))"

text \<open>
  Lines 282 to 284: the template up to the marker, the generated code, the template after
  the marker.
\<close>

definition assemble_source :: "string \<Rightarrow> nat \<Rightarrow> string \<Rightarrow> string" where
  "assemble_source template offset code_text =
     take offset template @ code_text @ drop (offset + length include_name) template"

text \<open>Lines 286 to 296: the option string.\<close>

definition build_options :: "externals \<Rightarrow> Variant \<Rightarrow> GpuContext \<Rightarrow> string" where
  "build_options ext v ctx =
     getOptions ext v ctx @ '' -DVARIANT='' @ decimal_int (variant_int ext v)
       @ (if is_64bit v then '' -DRANDOM_MATH_64_BIT'' else [])"

text \<open>
  Lines 255 to 303, everything before the cache is consulted. A request that is turned
  away gives \<open>Inl\<close> with the message it logs, if any; an accepted request gives \<open>Inr\<close>
  with the source, the options and the hash. The context is returned because
  \<open>get_device_string\<close> writes to its \<open>DeviceString\<close>.
\<close>

definition prepare_request ::
  "externals \<Rightarrow> GpuContext \<Rightarrow> Variant \<Rightarrow> uint64_t
   \<Rightarrow> (string option \<times> GpuContext) + (GpuContext \<times> string \<times> string \<times> string)" where
  "prepare_request ext ctx v h =
     (case strstr (source_code_template ext) include_name of
        None \<Rightarrow>
          Inl (Some ''CryptonightR_get_program: XMRIG_INCLUDE_RANDOM_MATH not found in cryptonight_r.cl'',
               ctx)
      | Some offset \<Rightarrow>
          (case (case v of
                   VARIANT_WOW \<Rightarrow> Some (v4_random_math_init ext VARIANT_WOW h)
                 | VARIANT_4 \<Rightarrow> Some (v4_random_math_init ext VARIANT_4 h)
                 | VARIANT_OTHER _ \<Rightarrow> None) of
             None \<Rightarrow>
               Inl (Some (''CryptonightR_get_program: invalid variant ''
                          @ decimal_int (variant_int ext v)), ctx)
           | Some (code, code_size) \<Rightarrow>
               (let source_code =
                      assemble_source (source_code_template ext) offset (get_code code code_size);
                    options = build_options ext v ctx;
                    (ok, ctx') =
                      (if DeviceString ctx = []
                       then (let (r, str) = get_device_string ext (platformIdx ctx) (DeviceID ctx)
                                              (DeviceString ctx)
                             in (r, ctx\<lparr>DeviceString := str\<rparr>))
                       else (True, ctx))
                in if \<not> ok then Inl (None, ctx')
                   else Inr (ctx', source_code, options,
                             calc_hash ext (DeviceString ctx') source_code options))))"

definition CryptonightR_get_program ::
  "externals \<Rightarrow> GpuContext \<Rightarrow> Variant \<Rightarrow> uint64_t \<Rightarrow> bool \<Rightarrow> cl_kernel \<Rightarrow> state
   \<Rightarrow> cl_program \<times> GpuContext \<times> state" where
  "CryptonightR_get_program ext ctx v h background old_kernel s =
     (if background
      then (None, ctx,
            background_exec \<lparr>task_ctx = ctx, task_variant = v, task_height = h,
                             task_old_kernel = old_kernel\<rparr> s)
      else
        (case prepare_request ext ctx v h of
           Inl (msg, ctx') \<Rightarrow>
             (None, ctx', (case msg of None \<Rightarrow> s | Some m \<Rightarrow> emit (LOG_ERR m) s))
         | Inr (ctx', source, options, hs) \<Rightarrow>
             (let s1 = emit (Lock CryptonightR_cache_mutex) s;
                  found = cache_lookup v h (ctx_deviceIdx ctx') hs (CryptonightR_cache s1);
                  s2 = emit (Unlock CryptonightR_cache_mutex) s1
              in case found of
                   Some entry \<Rightarrow> (Some (program entry), ctx', s2)
                 | None \<Rightarrow>
                     (let (p, s3) = CryptonightR_build_program ext ctx' v h old_kernel
                                      source options hs s2
                      in (p, ctx', s3)))))"

subsection \<open>Lock discipline and concrete instances\<close>

text \<open>
  \<open>released_outside m held es\<close>: along \<open>es\<close>, started with \<open>m\<close> held or not, no program is
  released while \<open>m\<close> is held.
\<close>

fun released_outside :: "mutex \<Rightarrow> bool \<Rightarrow> event list \<Rightarrow> bool" where
  "released_outside m held [] = True"
| "released_outside m held (Lock m' # es) = released_outside m (held \<or> m' = m) es"
| "released_outside m held (Unlock m' # es) = released_outside m (held \<and> m' \<noteq> m) es"
| "released_outside m held (ReleaseProgram p # es) = (\<not> held \<and> released_outside m held es)"
| "released_outside m held (e # es) = released_outside m held es"

text \<open>\<open>holds_after m held es\<close>: whether \<open>m\<close> is held once \<open>es\<close> have happened.\<close>

fun holds_after :: "mutex \<Rightarrow> bool \<Rightarrow> event list \<Rightarrow> bool" where
  "holds_after m held [] = held"
| "holds_after m held (Lock m' # es) = holds_after m (held \<or> m' = m) es"
| "holds_after m held (Unlock m' # es) = holds_after m (held \<and> m' \<noteq> m) es"
| "holds_after m held (e # es) = holds_after m held es"

text \<open>The events a call adds to the trace.\<close>

definition new_events :: "state \<Rightarrow> state \<Rightarrow> event list" where
  "new_events s s' = drop (length (trace s)) (trace s')"

text \<open>
  An instance of the external collaborators on which the definitions can be evaluated: a
  short template, a two-instruction program, and a build service that hands out handle 42
  when its three status codes are all \<open>CL_SUCCESS\<close>.
\<close>

definition example_externals :: "cl_int \<Rightarrow> cl_int \<Rightarrow> cl_int \<Rightarrow> externals" where
  "example_externals create_ret build_ret wait_ret =
     \<lparr>source_code_template = ''A;XMRIG_INCLUDE_RANDOM_MATH;B'',
      PRECOMPILATION_DEPTH = 1,
      variant_int = (\<lambda>v. case v of VARIANT_WOW \<Rightarrow> 12 | VARIANT_4 \<Rightarrow> 13 | VARIANT_OTHER n \<Rightarrow> n),
      v4_random_math_init = (\<lambda>v h.
         ([\<lparr>opcode = MUL, dst_index = 0, src_index = 1, C = 0\<rparr>,
           \<lparr>opcode = XOR, dst_index = 2, src_index = 3, C = 0\<rparr>], 2)),
      getOptions = (\<lambda>v ctx. ''-O2''),
      get_device_string = (\<lambda>platform dev str. (True, ''gpu'')),
      calc_hash = (\<lambda>dev_string source options. ''h''),
      createProgramWithSource = (\<lambda>c source. if create_ret = CL_SUCCESS then Inr 42 else Inl create_ret),
      buildProgram = (\<lambda>p dev options. build_ret),
      wait_build = (\<lambda>p dev. wait_ret),
      OclError_toString = decimal_int\<rparr>"

definition example_ctx :: GpuContext where
  "example_ctx =
     \<lparr>ctx_deviceIdx = 0, platformIdx = 0, DeviceID = 0, opencl_ctx = 0,
      DeviceString = ''gpu'', ProgramCryptonightR = Some 5\<rparr>"

definition example_entry :: "uint64_t \<Rightarrow> handle \<Rightarrow> CacheEntry" where
  "example_entry h p = \<lparr>variant = VARIANT_4, height = h, deviceIdx = 0, hash = ''h'', program = p\<rparr>"

definition example_state :: "CacheEntry list \<Rightarrow> state" where
  "example_state cache =
     \<lparr>CryptonightR_cache = cache, background_tasks = [], background_thread = False, trace = []\<rparr>"

subsection \<open>Threads\<close>

text \<open>
  A synchronous call that \<open>prepare_request\<close> has accepted, as one thread among others.
  \<open>request\<close> holds what the rest of the call reads: the context, the key, the outgoing
  kernel, the source and the options.
\<close>

record request =
  req_ctx :: GpuContext
  req_variant :: Variant
  req_height :: uint64_t
  req_old_kernel :: cl_kernel
  req_source :: string
  req_options :: string
  req_hash :: string

text \<open>
  Where a thread stands. Every access to the cache is inside a critical section of the cache
  mutex, so a critical section is one step; every call of the OpenCL library is one step;
  the build lock is taken in a step that is enabled only when the lock is free (line 188)
  and dropped by the \<open>return\<close> that follows (lines 206, 215, 223, 231 and 240). The
  release of the collected old programs (lines 184 to 186), which touches no shared
  variable, is one step.
\<close>

datatype pc =
    At_lookup
  | At_release_kernel
  | At_evict
  | At_release_programs "handle list"
  | At_build_lock
  | At_recheck
  | At_create
  | At_build handle
  | At_wait handle
  | At_insert handle
  | At_return cl_program
  | Returned cl_program

text \<open>
  One step of a thread on the shared state; \<open>locked\<close> tells whether some thread holds the
  build mutex. \<open>None\<close>: the thread is blocked on the build mutex or has returned.
\<close>

definition thread_step ::
  "externals \<Rightarrow> request \<Rightarrow> pc \<Rightarrow> state \<Rightarrow> bool \<Rightarrow> (pc \<times> state \<times> bool) option" where
  "thread_step ext r at s locked =
     (case at of
        At_lookup \<Rightarrow>
          (let s1 = emit (Lock CryptonightR_cache_mutex) s;
               found = cache_lookup (req_variant r) (req_height r) (ctx_deviceIdx (req_ctx r))
                         (req_hash r) (CryptonightR_cache s1);
               s2 = emit (Unlock CryptonightR_cache_mutex) s1
           in case found of
                Some entry \<Rightarrow> Some (Returned (Some (program entry)), s2, locked)
              | None \<Rightarrow> Some (At_release_kernel, s2, locked))
      | At_release_kernel \<Rightarrow>
          Some (At_evict, release_old_kernel (req_old_kernel r) s, locked)
      | At_evict \<Rightarrow>
          (let s1 = emit (Lock CryptonightR_cache_mutex) s;
               (cache', old_programs) =
                  remove_old_loop (req_variant r) (req_height r) (PRECOMPILATION_DEPTH ext) 0
                    (CryptonightR_cache s1) [];
               s2 = emit (Unlock CryptonightR_cache_mutex) (s1\<lparr>CryptonightR_cache := cache'\<rparr>)
           in Some (At_release_programs old_programs, s2, locked))
      | At_release_programs old_programs \<Rightarrow>
          Some (At_build_lock,
                foldl (\<lambda>s p. emit (ReleaseProgram (Some p)) s) s old_programs, locked)
      | At_build_lock \<Rightarrow>
          (if locked then None
           else Some (At_recheck, emit (Lock CryptonightR_build_mutex) s, True))
      | At_recheck \<Rightarrow>
          (let s1 = emit (Lock CryptonightR_cache_mutex) s;
               found = cache_lookup (req_variant r) (req_height r) (ctx_deviceIdx (req_ctx r))
                         (req_hash r) (CryptonightR_cache s1);
               s2 = emit (Unlock CryptonightR_cache_mutex) s1
           in case found of
                Some entry \<Rightarrow> Some (At_return (Some (program entry)), s2, locked)
              | None \<Rightarrow> Some (At_create, s2, locked))
      | At_create \<Rightarrow>
          (let s1 = emit (CreateProgramWithSource (opencl_ctx (req_ctx r)) (req_source r)) s in
           case createProgramWithSource ext (opencl_ctx (req_ctx r)) (req_source r) of
             Inl ret \<Rightarrow>
               Some (At_return None,
                     emit (LOG_ERR (''CryptonightR: clCreateProgramWithSource returned error ''
                                    @ OclError_toString ext ret)) s1,
                     locked)
           | Inr p \<Rightarrow> Some (At_build p, s1, locked))
      | At_build p \<Rightarrow>
          (let s1 = emit (BuildProgram p (DeviceID (req_ctx r)) (req_options r)) s;
               ret = buildProgram ext p (DeviceID (req_ctx r)) (req_options r)
           in if ret \<noteq> CL_SUCCESS
              then Some (At_return None,
                         emit (LOG_ERR (''CryptonightR: clBuildProgram returned error ''
                                        @ OclError_toString ext ret))
                           (emit (ReleaseProgram (Some p)) s1),
                         locked)
              else Some (At_wait p, s1, locked))
      | At_wait p \<Rightarrow>
          (let s1 = emit (WaitBuild p (DeviceID (req_ctx r))) s;
               ret = wait_build ext p (DeviceID (req_ctx r))
           in if ret \<noteq> CL_SUCCESS
              then Some (At_return None,
                         emit (LOG_ERR (''CryptonightR: wait_build returned error ''
                                        @ OclError_toString ext ret))
                           (emit (ReleaseProgram (Some p)) s1),
                         locked)
              else Some (At_insert p, s1, locked))
      | At_insert p \<Rightarrow>
          (let s1 = emit (Lock CryptonightR_cache_mutex) s;
               s2 = s1\<lparr>CryptonightR_cache := CryptonightR_cache s1 @
                      [\<lparr>variant = req_variant r, height = req_height r,
                        deviceIdx = ctx_deviceIdx (req_ctx r), hash = req_hash r,
                        program = p\<rparr>]\<rparr>;
               s3 = emit (Unlock CryptonightR_cache_mutex) s2
           in Some (At_return (Some p), s3, locked))
      | At_return res \<Rightarrow>
          Some (Returned res, emit (Unlock CryptonightR_build_mutex) s, False)
      | Returned res \<Rightarrow> None)"

text \<open>
  A thread run alone for at most \<open>n\<close> steps.
\<close>

fun thread_run ::
  "externals \<Rightarrow> request \<Rightarrow> nat \<Rightarrow> pc \<times> state \<times> bool \<Rightarrow> pc \<times> state \<times> bool" where
  "thread_run ext r 0 c = c"
| "thread_run ext r (Suc n) (at, s, locked) =
     (case thread_step ext r at s locked of
        None \<Rightarrow> (at, s, locked)
      | Some c' \<Rightarrow> thread_run ext r n c')"

text \<open>
  Several threads: the shared state, the build mutex and one position for each thread. A
  schedule is the list of the threads that step, in order; \<open>run\<close> is \<open>None\<close> when the
  schedule asks a blocked or returned thread to step.
\<close>

record config =
  shared :: state
  build_locked :: bool
  pcs :: "pc list"

definition step :: "externals \<Rightarrow> request list \<Rightarrow> nat \<Rightarrow> config \<Rightarrow> config option" where
  "step ext reqs i cfg =
     (if i < length reqs \<and> i < length (pcs cfg)
      then (case thread_step ext (reqs ! i) (pcs cfg ! i) (shared cfg) (build_locked cfg) of
              None \<Rightarrow> None
            | Some (at', s', locked') \<Rightarrow>
                Some \<lparr>shared = s', build_locked = locked', pcs = (pcs cfg)[i := at']\<rparr>)
      else None)"

fun run :: "externals \<Rightarrow> request list \<Rightarrow> nat list \<Rightarrow> config \<Rightarrow> config option" where
  "run ext reqs [] cfg = Some cfg"
| "run ext reqs (i # schedule) cfg =
     (case step ext reqs i cfg of None \<Rightarrow> None | Some cfg' \<Rightarrow> run ext reqs schedule cfg')"

definition initial :: "state \<Rightarrow> nat \<Rightarrow> config" where
  "initial s n = \<lparr>shared = s, build_locked = False, pcs = replicate n At_lookup\<rparr>"

text \<open>
  The number of calls of \<open>createProgramWithSource\<close> in a trace.
\<close>

definition is_create :: "event \<Rightarrow> bool" where
  "is_create e = (case e of CreateProgramWithSource c source \<Rightarrow> True | _ \<Rightarrow> False)"

definition build_calls :: "event list \<Rightarrow> nat" where
  "build_calls es = length (filter is_create es)"

definition example_request :: "uint64_t \<Rightarrow> request" where
  "example_request h =
     \<lparr>req_ctx = example_ctx, req_variant = VARIANT_4, req_height = h, req_old_kernel = None,
      req_source = ''src'', req_options = ''opt'', req_hash = ''h''\<rparr>"

text \<open>
  The positions at which a thread holds the build mutex, and the positions a thread can be
  at before any program was created, while the one created program \<open>p\<close> is being built,
  and after \<open>p\<close> was inserted.
\<close>

fun holds_build_lock :: "pc \<Rightarrow> bool" where
  "holds_build_lock At_recheck = True"
| "holds_build_lock At_create = True"
| "holds_build_lock (At_build p) = True"
| "holds_build_lock (At_wait p) = True"
| "holds_build_lock (At_insert p) = True"
| "holds_build_lock (At_return res) = True"
| "holds_build_lock at = False"

fun before_build :: "pc \<Rightarrow> bool" where
  "before_build (At_build p) = False"
| "before_build (At_wait p) = False"
| "before_build (At_insert p) = False"
| "before_build (At_return res) = False"
| "before_build (Returned res) = False"
| "before_build at = True"

fun while_building :: "externals \<Rightarrow> request \<Rightarrow> handle \<Rightarrow> pc \<Rightarrow> bool" where
  "while_building ext r p (At_build q) \<longleftrightarrow>
     q = p \<and> buildProgram ext p (DeviceID (req_ctx r)) (req_options r) = CL_SUCCESS \<and>
     wait_build ext p (DeviceID (req_ctx r)) = CL_SUCCESS"
| "while_building ext r p (At_wait q) \<longleftrightarrow>
     q = p \<and> wait_build ext p (DeviceID (req_ctx r)) = CL_SUCCESS"
| "while_building ext r p (At_insert q) \<longleftrightarrow> q = p"
| "while_building ext r p At_recheck = False"
| "while_building ext r p At_create = False"
| "while_building ext r p (At_return res) = False"
| "while_building ext r p (Returned res) = False"
| "while_building ext r p at = True"

fun after_insert :: "handle \<Rightarrow> pc \<Rightarrow> bool" where
  "after_insert p (At_return res) \<longleftrightarrow> res = Some p"
| "after_insert p (Returned res) \<longleftrightarrow> res = Some p"
| "after_insert p At_create = False"
| "after_insert p (At_build q) = False"
| "after_insert p (At_wait q) = False"
| "after_insert p (At_insert q) = False"
| "after_insert p at = True"

text \<open>
  The cache has no entry for the key; every entry for the key has program \<open>p\<close> and there
  is one; the request has the key; the three build calls succeed for the request.
\<close>

definition key_absent :: "Variant \<Rightarrow> uint64_t \<Rightarrow> nat \<Rightarrow> string \<Rightarrow> CacheEntry list \<Rightarrow> bool" where
  "key_absent v h dev hs cache \<longleftrightarrow> (\<forall>e \<in> set cache. \<not> key_matches v h dev hs e)"

definition key_cached ::
  "Variant \<Rightarrow> uint64_t \<Rightarrow> nat \<Rightarrow> string \<Rightarrow> handle \<Rightarrow> CacheEntry list \<Rightarrow> bool" where
  "key_cached v h dev hs p cache \<longleftrightarrow>
     (\<exists>e \<in> set cache. key_matches v h dev hs e) \<and>
     (\<forall>e \<in> set cache. key_matches v h dev hs e \<longrightarrow> program e = p)"



text \<open>
  The invariant of threads that request one key on a cache that had no entry for it: at
  most one thread holds the build mutex, and either no program was created and the key is
  absent, or one program was created and its thread is building it, or one program was
  created and it is the program of the key's entries.
\<close>

definition one_build_inv ::
  "externals \<Rightarrow> request list \<Rightarrow> Variant \<Rightarrow> uint64_t \<Rightarrow> nat \<Rightarrow> string \<Rightarrow> state \<Rightarrow> config \<Rightarrow> bool" where
  "one_build_inv ext reqs v h dev hs s0 cfg \<longleftrightarrow>
     length (pcs cfg) = length reqs \<and>
     (\<forall>i < length reqs. \<forall>j < length reqs.
        holds_build_lock (pcs cfg ! i) \<and> holds_build_lock (pcs cfg ! j) \<longrightarrow> i = j) \<and>
     (build_locked cfg \<longleftrightarrow> (\<exists>i < length reqs. holds_build_lock (pcs cfg ! i))) \<and>
     (\<exists>es. trace (shared cfg) = trace s0 @ es \<and>
        ((build_calls es = 0 \<and> key_absent v h dev hs (CryptonightR_cache (shared cfg)) \<and>
          (\<forall>i < length reqs. before_build (pcs cfg ! i))) \<or>
         (\<exists>p. build_calls es = 1 \<and> key_absent v h dev hs (CryptonightR_cache (shared cfg)) \<and>
              build_locked cfg \<and>
              (\<forall>i < length reqs. while_building ext (reqs ! i) p (pcs cfg ! i))) \<or>
         (\<exists>p. build_calls es = 1 \<and> key_cached v h dev hs p (CryptonightR_cache (shared cfg)) \<and>
              (\<forall>i < length reqs. after_insert p (pcs cfg ! i)))))"

text \<open>The part of the invariant that is about the build mutex alone, for any requests.\<close>

definition lock_inv :: "request list \<Rightarrow> config \<Rightarrow> bool" where
  "lock_inv reqs cfg \<longleftrightarrow>
     length (pcs cfg) = length reqs \<and>
     (\<forall>i < length reqs. \<forall>j < length reqs.
        holds_build_lock (pcs cfg ! i) \<and> holds_build_lock (pcs cfg ! j) \<longrightarrow> i = j) \<and>
     (build_locked cfg \<longleftrightarrow> (\<exists>i < length reqs. holds_build_lock (pcs cfg ! i)))"

section \<open>Properties\<close>

subsection \<open>The translator\<close>

lemma put_instruction_spec: "put_instruction s inst = s @ spec_statement inst"
  by (cases "opcode inst")
     (simp_all add: put_instruction_def spec_statement_def reg_def put_char_def put_str_def
        put_uint_def Let_def)

lemma get_code_loop_take_drop:
  "0 \<le> i \<Longrightarrow> code_size \<le> int (length code) \<Longrightarrow>
   get_code_loop code code_size i s =
     s @ concat (map (\<lambda>inst. spec_statement inst @ [newline])
                  (drop (nat i) (take (nat code_size) code)))"
proof (induction code code_size i s rule: get_code_loop.induct)
  case (1 code code_size i s)
  show ?case
  proof (cases "i < code_size")
    case True
    with "1.prems" have len: "nat i < length (take (nat code_size) code)"
      by simp
    have step: "drop (nat i) (take (nat code_size) code) =
        code ! nat i # drop (nat (i + 1)) (take (nat code_size) code)"
      using len "1.prems" True
      by (metis Cons_nth_drop_Suc Suc_nat_eq_nat_zadd1 add.commute nth_take length_take
          min.strict_boundedE)
    from True "1.prems" have "get_code_loop code code_size i s =
        get_code_loop code code_size (i + 1) (put_char (put_instruction s (code ! nat i)) newline)"
      by (subst get_code_loop.simps) simp
    also have "\<dots> = put_char (put_instruction s (code ! nat i)) newline @
        concat (map (\<lambda>inst. spec_statement inst @ [newline])
                  (drop (nat (i + 1)) (take (nat code_size) code)))"
      using "1.IH" [OF True] "1.prems" by simp
    finally show ?thesis
      by (simp add: step put_instruction_spec put_char_def)
  next
    case False
    with "1.prems" have "drop (nat i) (take (nat code_size) code) = []"
      by simp
    with False show ?thesis
      by (subst get_code_loop.simps) simp
  qed
qed

text \<open>
  C6. For every instruction sequence, \<open>get_code\<close> writes, for each instruction in order,
  the statement the specification gives for its opcode followed by a newline:
  \<open>r<dst>*=r<src>;\<close> for multiply, \<open>r<dst>+=r<src>+<C>U;\<close> for add,
  \<open>r<dst>-=r<src>;\<close> for subtract, \<open>r<dst>=rotate(r<dst>,r<src>);\<close> for rotate-left,
  \<open>r<dst>=rotate(r<dst>,ROT_BITS-r<src>);\<close> for rotate-right, \<open>r<dst>^=r<src>;\<close> for
  xor, and no statement for any other opcode.
\<close>

theorem get_code_translates:
  assumes "code_size \<le> int (length code)"
  shows "get_code code code_size =
           concat (map (\<lambda>inst. spec_statement inst @ [newline]) (take (nat code_size) code))"
  using assms get_code_loop_take_drop [of 0 code_size code "[]"]
  by (simp add: get_code_def)

theorem get_code_translates_witness:
  "get_code
     [\<lparr>opcode = MUL, dst_index = 0, src_index = 1, C = 0\<rparr>,
      \<lparr>opcode = ADD, dst_index = 2, src_index = 3, C = 4294967295\<rparr>,
      \<lparr>opcode = OTHER_OPCODE 6, dst_index = 0, src_index = 0, C = 0\<rparr>,
      \<lparr>opcode = ROR, dst_index = 1, src_index = 12, C = 0\<rparr>] 4
   = ''r0*=r1;'' @ [newline] @ ''r2+=r3+4294967295U;'' @ [newline] @ [newline]
     @ ''r1=rotate(r1,ROT_BITS-r12);'' @ [newline]"
  using get_code_translates [of 4
     "[\<lparr>opcode = MUL, dst_index = 0, src_index = 1, C = 0\<rparr>,
      \<lparr>opcode = ADD, dst_index = 2, src_index = 3, C = 4294967295\<rparr>,
      \<lparr>opcode = OTHER_OPCODE 6, dst_index = 0, src_index = 0, C = 0\<rparr>,
      \<lparr>opcode = ROR, dst_index = 1, src_index = 12, C = 0\<rparr>]"]
  by (simp add: spec_statement_def reg_def decimal.simps digit_char_def)


subsection \<open>Removal by swapping with the last entry\<close>

lemma swap_remove_take:
  "i < length xs \<Longrightarrow> take i (butlast (xs[i := last xs])) = take i xs"
  by (simp add: butlast_conv_take)

lemma swap_remove_drop:
  assumes "i < length xs"
  shows "mset (drop i (butlast (xs[i := last xs]))) = mset (drop (Suc i) xs)"
proof (cases xs rule: rev_cases)
  case Nil
  with assms show ?thesis by simp
next
  case (snoc ys l)
  show ?thesis
  proof (cases "i < length ys")
    case True
    then have "drop i (ys[i := l]) = l # drop (Suc i) ys"
      by (simp add: drop_update_cancel upd_conv_take_nth_drop)
    with True snoc show ?thesis
      by (simp add: list_update_append)
  next
    case False
    with assms snoc have "i = length ys" by simp
    with snoc show ?thesis by simp
  qed
qed

lemma remove_old_loop_mset:
  "i \<le> length cache \<Longrightarrow>
   mset (fst (remove_old_loop v h depth i cache old)) =
     mset (take i cache) + filter_mset (\<lambda>e. \<not> is_old v h depth e) (mset (drop i cache)) \<and>
   mset (snd (remove_old_loop v h depth i cache old)) =
     mset old + image_mset program (filter_mset (is_old v h depth) (mset (drop i cache)))"
proof (induction v h depth i cache old rule: remove_old_loop.induct)
  case (1 v h depth i cache old)
  show ?case
  proof (cases "i < length cache")
    case False
    with "1.prems" show ?thesis
      by (subst (1 2) remove_old_loop.simps) simp
  next
    case lt: True
    then have dr: "drop i cache = cache ! i # drop (Suc i) cache"
      by (simp add: Cons_nth_drop_Suc)
    show ?thesis
    proof (cases "is_old v h depth (cache ! i)")
      case True
      let ?c = "butlast (cache[i := last cache])"
      have le: "i \<le> length ?c" using lt by simp
      have unf: "remove_old_loop v h depth i cache old =
          remove_old_loop v h depth i ?c (old @ [program (cache ! i)])"
        using lt True by (subst remove_old_loop.simps) simp
      show ?thesis
        using "1.IH"(1) [OF lt True le] lt True
        by (simp add: unf dr swap_remove_take swap_remove_drop)
    next
      case False
      have unf: "remove_old_loop v h depth i cache old =
          remove_old_loop v h depth (Suc i) cache old"
        using lt False by (subst remove_old_loop.simps) simp
      have tk: "take (Suc i) cache = take i cache @ [cache ! i]"
        using lt by (simp add: take_Suc_conv_app_nth)
      show ?thesis
        using "1.IH"(2) [OF lt False] lt False
        by (simp add: unf dr tk)
    qed
  qed
qed

lemma release_loop_mset:
  "i \<le> length cache \<Longrightarrow>
   mset (release_loop dev i cache) =
     mset (take i cache) + filter_mset (\<lambda>e. deviceIdx e \<noteq> dev) (mset (drop i cache))"
proof (induction dev i cache rule: release_loop.induct)
  case (1 dev i cache)
  show ?case
  proof (cases "i < length cache")
    case False
    with "1.prems" show ?thesis
      by (subst release_loop.simps) simp
  next
    case lt: True
    then have dr: "drop i cache = cache ! i # drop (Suc i) cache"
      by (simp add: Cons_nth_drop_Suc)
    show ?thesis
    proof (cases "deviceIdx (cache ! i) = dev")
      case True
      let ?c = "butlast (cache[i := last cache])"
      have le: "i \<le> length ?c" using lt by simp
      have unf: "release_loop dev i cache = release_loop dev i ?c"
        using lt True by (subst release_loop.simps) simp
      show ?thesis
        using "1.IH"(1) [OF lt True le] lt True
        by (simp add: unf dr swap_remove_take swap_remove_drop)
    next
      case False
      have unf: "release_loop dev i cache = release_loop dev (Suc i) cache"
        using lt False by (subst release_loop.simps) simp
      have tk: "take (Suc i) cache = take i cache @ [cache ! i]"
        using lt by (simp add: take_Suc_conv_app_nth)
      show ?thesis
        using "1.IH"(2) [OF lt False] lt False
        by (simp add: unf dr tk)
    qed
  qed
qed

subsection \<open>Traces\<close>

lemma emit_simps [simp]:
  "trace (emit e s) = trace s @ [e]"
  "CryptonightR_cache (emit e s) = CryptonightR_cache s"
  "background_tasks (emit e s) = background_tasks s"
  "background_thread (emit e s) = background_thread s"
  by (simp_all add: emit_def)

lemma emit_cache_update:
  "emit e (s\<lparr>CryptonightR_cache := c\<rparr>) = (emit e s)\<lparr>CryptonightR_cache := c\<rparr>"
  by (simp add: emit_def)

lemma release_all_trace:
  "trace (foldl (\<lambda>s p. emit (ReleaseProgram (Some p)) s) s ps) =
     trace s @ map (\<lambda>p. ReleaseProgram (Some p)) ps"
  by (induction ps arbitrary: s) simp_all

lemma release_all_cache:
  "CryptonightR_cache (foldl (\<lambda>s p. emit (ReleaseProgram (Some p)) s) s ps) = CryptonightR_cache s"
  by (induction ps arbitrary: s) simp_all

lemma release_old_kernel_trace:
  "trace (release_old_kernel old_kernel s) =
     trace s @ (case old_kernel of None \<Rightarrow> [] | Some k \<Rightarrow> [ReleaseKernel k])"
  by (simp add: release_old_kernel_def split: option.splits)

lemma release_old_kernel_cache [simp]:
  "CryptonightR_cache (release_old_kernel old_kernel s) = CryptonightR_cache s"
  by (simp add: release_old_kernel_def split: option.splits)

lemma remove_old_programs_cache:
  "CryptonightR_cache (remove_old_programs ext v h s) =
     fst (remove_old_loop v h (PRECOMPILATION_DEPTH ext) 0 (CryptonightR_cache s) [])"
  by (simp add: remove_old_programs_def Let_def release_all_cache split: prod.splits)

lemma remove_old_programs_trace:
  "trace (remove_old_programs ext v h s) =
     trace s @ [Lock CryptonightR_cache_mutex, Unlock CryptonightR_cache_mutex] @
     map (\<lambda>p. ReleaseProgram (Some p))
       (snd (remove_old_loop v h (PRECOMPILATION_DEPTH ext) 0 (CryptonightR_cache s) []))"
  by (simp add: remove_old_programs_def Let_def release_all_trace split: prod.splits)

lemma released_outside_app:
  "released_outside m held (es @ fs) \<longleftrightarrow>
     released_outside m held es \<and> released_outside m (holds_after m held es) fs"
  by (induction m held es rule: released_outside.induct) auto

lemma holds_after_app:
  "holds_after m held (es @ fs) = holds_after m (holds_after m held es) fs"
  by (induction m held es rule: holds_after.induct) auto

lemma holds_after_releases [simp]:
  "holds_after m held (map (\<lambda>p. ReleaseProgram (Some p)) ps) = held"
  by (induction ps) simp_all

lemma released_outside_rel [simp]:
  "released_outside m False (map (\<lambda>p. ReleaseProgram (Some p)) ps)"
  by (induction ps) simp_all

lemma cache_lookup_Some:
  "cache_lookup v h dev hs cache = Some e \<Longrightarrow>
     e \<in> set cache \<and> variant e = v \<and> height e = h \<and> deviceIdx e = dev \<and> hash e = hs"
  by (auto simp: cache_lookup_def key_matches_def find_Some_iff)

lemma cache_lookup_None:
  "cache_lookup v h dev hs cache = None \<longleftrightarrow>
     (\<forall>e \<in> set cache. \<not> (variant e = v \<and> height e = h \<and> deviceIdx e = dev \<and> hash e = hs))"
  by (auto simp: cache_lookup_def key_matches_def find_None_iff)

lemma compile_program_trace:
  "\<exists>es. trace (snd (compile_program ext ctx v h source options hs s)) = trace s @ es \<and>
        released_outside CryptonightR_cache_mutex False es"
  by (auto simp: compile_program_def Let_def split: sum.splits)

lemma build_program_hit:
  assumes "cache_lookup v h (ctx_deviceIdx ctx) hs
             (CryptonightR_cache (remove_old_programs ext v h (release_old_kernel old_kernel s)))
           = Some entry"
  shows "CryptonightR_build_program ext ctx v h old_kernel source options hs s =
           (Some (program entry),
            (remove_old_programs ext v h (release_old_kernel old_kernel s))
              \<lparr>trace := trace (remove_old_programs ext v h (release_old_kernel old_kernel s)) @
                 [Lock CryptonightR_build_mutex, Lock CryptonightR_cache_mutex,
                  Unlock CryptonightR_cache_mutex, Unlock CryptonightR_build_mutex]\<rparr>)"
  using assms by (simp add: CryptonightR_build_program_def Let_def emit_def)

lemma build_program_miss:
  assumes "cache_lookup v h (ctx_deviceIdx ctx) hs
             (CryptonightR_cache (remove_old_programs ext v h (release_old_kernel old_kernel s)))
           = None"
  shows "CryptonightR_build_program ext ctx v h old_kernel source options hs s =
           compile_program ext ctx v h source options hs
            ((remove_old_programs ext v h (release_old_kernel old_kernel s))
              \<lparr>trace := trace (remove_old_programs ext v h (release_old_kernel old_kernel s)) @
                 [Lock CryptonightR_build_mutex, Lock CryptonightR_cache_mutex,
                  Unlock CryptonightR_cache_mutex]\<rparr>)"
  using assms by (simp add: CryptonightR_build_program_def Let_def emit_def)

lemma build_program_trace:
  "\<exists>rest. trace (snd (CryptonightR_build_program ext ctx v h old_kernel source options hs s)) =
      trace s @ (case old_kernel of None \<Rightarrow> [] | Some k \<Rightarrow> [ReleaseKernel k]) @
      [Lock CryptonightR_cache_mutex, Unlock CryptonightR_cache_mutex] @
      map (\<lambda>p. ReleaseProgram (Some p))
        (snd (remove_old_loop v h (PRECOMPILATION_DEPTH ext) 0 (CryptonightR_cache s) [])) @
      [Lock CryptonightR_build_mutex] @ rest \<and>
      released_outside CryptonightR_cache_mutex False
        ([Lock CryptonightR_build_mutex] @ rest)"
proof (cases "cache_lookup v h (ctx_deviceIdx ctx) hs
             (CryptonightR_cache (remove_old_programs ext v h (release_old_kernel old_kernel s)))")
  case (Some entry)
  show ?thesis
    by (simp add: build_program_hit [OF Some] remove_old_programs_trace release_old_kernel_trace)
next
  case None
  let ?s = "(remove_old_programs ext v h (release_old_kernel old_kernel s))
              \<lparr>trace := trace (remove_old_programs ext v h (release_old_kernel old_kernel s)) @
                 [Lock CryptonightR_build_mutex, Lock CryptonightR_cache_mutex,
                  Unlock CryptonightR_cache_mutex]\<rparr>"
  obtain es where es: "trace (snd (compile_program ext ctx v h source options hs ?s)) = trace ?s @ es"
    "released_outside CryptonightR_cache_mutex False es"
    using compile_program_trace by blast
  have "trace (snd (CryptonightR_build_program ext ctx v h old_kernel source options hs s)) =
      trace ?s @ es"
    by (simp only: build_program_miss [OF None] es)
  then have "trace (snd (CryptonightR_build_program ext ctx v h old_kernel source options hs s)) =
      trace (remove_old_programs ext v h (release_old_kernel old_kernel s)) @
      [Lock CryptonightR_build_mutex] @
      ([Lock CryptonightR_cache_mutex, Unlock CryptonightR_cache_mutex] @ es)"
    by simp
  then show ?thesis
    using es(2)
    by (intro exI [of _ "[Lock CryptonightR_cache_mutex, Unlock CryptonightR_cache_mutex] @ es"])
       (simp add: remove_old_programs_trace release_old_kernel_trace)
qed

subsection \<open>Cache hits\<close>

lemmas example_defs = example_externals_def example_ctx_def example_entry_def example_state_def

lemma new_events_append [simp]: "trace s' = trace s @ es \<Longrightarrow> new_events s s' = es"
  by (simp add: new_events_def)

text \<open>
  C3. A cache lookup answers with an entry only if the entry's variant, height, device
  index and hash all equal the requested ones, and misses exactly when no entry matches on
  all four. When the lookup that \<open>CryptonightR_build_program\<close> makes under the build lock
  finds an entry, the function returns that entry's program; after the removal of old
  programs it only takes and drops the two locks, so no program is created, built or
  waited for.
\<close>

theorem cache_hit_returns_without_build:
  "(cache_lookup v h dev hs cache = Some e \<longrightarrow>
      e \<in> set cache \<and> variant e = v \<and> height e = h \<and> deviceIdx e = dev \<and> hash e = hs) \<and>
   (cache_lookup v h dev hs cache = None \<longleftrightarrow>
      (\<forall>e \<in> set cache. \<not> (variant e = v \<and> height e = h \<and> deviceIdx e = dev \<and> hash e = hs))) \<and>
   (cache_lookup v h (ctx_deviceIdx ctx) hs
        (CryptonightR_cache (remove_old_programs ext v h (release_old_kernel old_kernel s)))
      = Some entry \<longrightarrow>
      fst (CryptonightR_build_program ext ctx v h old_kernel source options hs s)
        = Some (program entry) \<and>
      entry \<in> set (CryptonightR_cache
                     (snd (CryptonightR_build_program ext ctx v h old_kernel source options hs s))) \<and>
      new_events (remove_old_programs ext v h (release_old_kernel old_kernel s))
          (snd (CryptonightR_build_program ext ctx v h old_kernel source options hs s))
        = [Lock CryptonightR_build_mutex, Lock CryptonightR_cache_mutex,
           Unlock CryptonightR_cache_mutex, Unlock CryptonightR_build_mutex] \<and>
      (\<forall>ev \<in> set (new_events s
                   (snd (CryptonightR_build_program ext ctx v h old_kernel source options hs s))).
          (\<forall>c src. ev \<noteq> CreateProgramWithSource c src) \<and>
          (\<forall>p d opts. ev \<noteq> BuildProgram p d opts) \<and>
          (\<forall>p d. ev \<noteq> WaitBuild p d)))"
proof (intro conjI impI)
  assume "cache_lookup v h dev hs cache = Some e"
  then show "e \<in> set cache" "variant e = v" "height e = h" "deviceIdx e = dev" "hash e = hs"
    by (simp_all add: cache_lookup_Some)
next
  show "cache_lookup v h dev hs cache = None \<longleftrightarrow>
      (\<forall>e \<in> set cache. \<not> (variant e = v \<and> height e = h \<and> deviceIdx e = dev \<and> hash e = hs))"
    by (rule cache_lookup_None)
next
  let ?S = "remove_old_programs ext v h (release_old_kernel old_kernel s)"
  let ?R = "CryptonightR_build_program ext ctx v h old_kernel source options hs s"
  assume hit: "cache_lookup v h (ctx_deviceIdx ctx) hs (CryptonightR_cache ?S) = Some entry"
  note eq = build_program_hit [OF hit, of source options]
  show "fst ?R = Some (program entry)"
    by (simp add: eq)
  show "entry \<in> set (CryptonightR_cache (snd ?R))"
    using cache_lookup_Some [OF hit] by (simp add: eq)
  show "new_events ?S (snd ?R) = [Lock CryptonightR_build_mutex, Lock CryptonightR_cache_mutex,
           Unlock CryptonightR_cache_mutex, Unlock CryptonightR_build_mutex]"
    by (simp add: eq)
  have "trace (snd ?R) = trace s @
      ((case old_kernel of None \<Rightarrow> [] | Some k \<Rightarrow> [ReleaseKernel k]) @
       [Lock CryptonightR_cache_mutex, Unlock CryptonightR_cache_mutex] @
       map (\<lambda>p. ReleaseProgram (Some p))
         (snd (remove_old_loop v h (PRECOMPILATION_DEPTH ext) 0 (CryptonightR_cache s) [])) @
       [Lock CryptonightR_build_mutex, Lock CryptonightR_cache_mutex,
        Unlock CryptonightR_cache_mutex, Unlock CryptonightR_build_mutex])"
    by (simp add: eq remove_old_programs_trace release_old_kernel_trace)
  then have "new_events s (snd ?R) =
      (case old_kernel of None \<Rightarrow> [] | Some k \<Rightarrow> [ReleaseKernel k]) @
       [Lock CryptonightR_cache_mutex, Unlock CryptonightR_cache_mutex] @
       map (\<lambda>p. ReleaseProgram (Some p))
         (snd (remove_old_loop v h (PRECOMPILATION_DEPTH ext) 0 (CryptonightR_cache s) [])) @
       [Lock CryptonightR_build_mutex, Lock CryptonightR_cache_mutex,
        Unlock CryptonightR_cache_mutex, Unlock CryptonightR_build_mutex]"
    by (rule new_events_append)
  then show "\<forall>ev \<in> set (new_events s (snd ?R)).
          (\<forall>c src. ev \<noteq> CreateProgramWithSource c src) \<and>
          (\<forall>p d opts. ev \<noteq> BuildProgram p d opts) \<and>
          (\<forall>p d. ev \<noteq> WaitBuild p d)"
    by (auto split: option.splits)
qed

theorem cache_hit_returns_without_build_witness:
  "cache_lookup VARIANT_4 100 (ctx_deviceIdx example_ctx) ''h''
     (CryptonightR_cache (remove_old_programs (example_externals 0 0 0) VARIANT_4 100
        (release_old_kernel (Some 9) (example_state [example_entry 100 7]))))
     = Some (example_entry 100 7) \<and>
   fst (CryptonightR_build_program (example_externals 0 0 0) example_ctx VARIANT_4 100 (Some 9)
          ''src'' ''opt'' ''h'' (example_state [example_entry 100 7])) = Some 7"
proof -
  have hit: "cache_lookup VARIANT_4 100 (ctx_deviceIdx example_ctx) ''h''
     (CryptonightR_cache (remove_old_programs (example_externals 0 0 0) VARIANT_4 100
        (release_old_kernel (Some 9) (example_state [example_entry 100 7]))))
     = Some (example_entry 100 7)"
    by (simp add: example_defs remove_old_programs_def release_old_kernel_def emit_def
        remove_old_loop.simps is_old_def Let_def cache_lookup_def key_matches_def)
  from hit cache_hit_returns_without_build [of VARIANT_4 100 0 "''h''" "[]"
        "example_entry 100 7" example_ctx "example_externals 0 0 0" "Some 9"
        "example_state [example_entry 100 7]" "example_entry 100 7" "''src''" "''opt''"]
  have "fst (CryptonightR_build_program (example_externals 0 0 0) example_ctx VARIANT_4 100 (Some 9)
          ''src'' ''opt'' ''h'' (example_state [example_entry 100 7]))
        = Some (program (example_entry 100 7))"
    by blast
  with hit show ?thesis
    by (simp add: example_entry_def)
qed


subsection \<open>Removal of old programs\<close>

text \<open>
  C4. The removal step of \<open>CryptonightR_build_program\<close> leaves in the cache exactly the
  entries that are not old, where an entry is old when its variant is the requested one and,
  in \<open>uint64_t\<close> arithmetic, its height plus \<open>PRECOMPILATION_DEPTH\<close> is below the requested
  height; entries of other variants and entries inside the window stay. The programs of the
  removed entries, each once, are released right after the cache lock is dropped and before
  the build lock is taken, and no program is released while the cache lock is held.
\<close>

theorem stale_eviction_exact:
  "mset (CryptonightR_cache (remove_old_programs ext v h s)) =
     filter_mset (\<lambda>e. \<not> (variant e = v \<and> height e + PRECOMPILATION_DEPTH ext < h))
       (mset (CryptonightR_cache s)) \<and>
   (\<exists>old_programs rest.
      mset old_programs =
        image_mset program
          (filter_mset (\<lambda>e. variant e = v \<and> height e + PRECOMPILATION_DEPTH ext < h)
             (mset (CryptonightR_cache s))) \<and>
      new_events s (remove_old_programs ext v h s) =
        [Lock CryptonightR_cache_mutex, Unlock CryptonightR_cache_mutex] @
        map (\<lambda>p. ReleaseProgram (Some p)) old_programs \<and>
      new_events s (snd (CryptonightR_build_program ext ctx v h old_kernel source options hs s)) =
        (case old_kernel of None \<Rightarrow> [] | Some k \<Rightarrow> [ReleaseKernel k]) @
        [Lock CryptonightR_cache_mutex, Unlock CryptonightR_cache_mutex] @
        map (\<lambda>p. ReleaseProgram (Some p)) old_programs @
        [Lock CryptonightR_build_mutex] @ rest \<and>
      released_outside CryptonightR_cache_mutex False
        (new_events s (snd (CryptonightR_build_program ext ctx v h old_kernel source options hs s))))"
proof -
  let ?R = "remove_old_loop v h (PRECOMPILATION_DEPTH ext) 0 (CryptonightR_cache s) []"
  let ?B = "snd (CryptonightR_build_program ext ctx v h old_kernel source options hs s)"
  let ?k = "case old_kernel of None \<Rightarrow> [] | Some k \<Rightarrow> [ReleaseKernel k]"
  have inv: "mset (fst ?R) = filter_mset (\<lambda>e. \<not> is_old v h (PRECOMPILATION_DEPTH ext) e)
                 (mset (CryptonightR_cache s))"
    "mset (snd ?R) = image_mset program (filter_mset (is_old v h (PRECOMPILATION_DEPTH ext))
                 (mset (CryptonightR_cache s)))"
    using remove_old_loop_mset [of 0 "CryptonightR_cache s" v h "PRECOMPILATION_DEPTH ext" "[]"]
    by simp_all
  have old: "is_old v h (PRECOMPILATION_DEPTH ext) =
      (\<lambda>e. variant e = v \<and> height e + PRECOMPILATION_DEPTH ext < h)"
    by (rule ext) (simp add: is_old_def)
  obtain rest where rest:
    "trace ?B = trace s @ ?k @ [Lock CryptonightR_cache_mutex, Unlock CryptonightR_cache_mutex] @
        map (\<lambda>p. ReleaseProgram (Some p)) (snd ?R) @ [Lock CryptonightR_build_mutex] @ rest"
    "released_outside CryptonightR_cache_mutex False ([Lock CryptonightR_build_mutex] @ rest)"
    using build_program_trace [of ext ctx v h old_kernel source options hs s] by blast
  have ne: "new_events s ?B = ?k @ [Lock CryptonightR_cache_mutex, Unlock CryptonightR_cache_mutex] @
        map (\<lambda>p. ReleaseProgram (Some p)) (snd ?R) @ [Lock CryptonightR_build_mutex] @ rest"
    using rest(1) by (rule new_events_append)
  have ro: "released_outside CryptonightR_cache_mutex False (new_events s ?B)"
    using rest(2)
    by (simp add: ne released_outside_app holds_after_app split: option.splits)
  have c1: "mset (CryptonightR_cache (remove_old_programs ext v h s)) =
     filter_mset (\<lambda>e. \<not> (variant e = v \<and> height e + PRECOMPILATION_DEPTH ext < h))
       (mset (CryptonightR_cache s))"
    using inv(1) by (simp add: remove_old_programs_cache old)
  have c2: "new_events s (remove_old_programs ext v h s) =
        [Lock CryptonightR_cache_mutex, Unlock CryptonightR_cache_mutex] @
        map (\<lambda>p. ReleaseProgram (Some p)) (snd ?R)"
    by (rule new_events_append) (simp add: remove_old_programs_trace)
  show ?thesis
    using c1 c2 ne ro inv(2) unfolding old by blast
qed

text \<open>Without wrap-around the test of line 170 is the comparison of the natural numbers.\<close>

lemma is_old_no_wrap:
  "unat (height e) + unat depth < 2 ^ 64 \<Longrightarrow>
   is_old v h depth e \<longleftrightarrow> variant e = v \<and> unat (height e) + unat depth < unat h"
  by (simp add: is_old_def word_less_nat_alt unat_word_ariths)

text \<open>
  C5 as stated fails: a request whose build fails still removes the old entries first, so the
  cache after the call is not the cache before it.
\<close>

theorem failed_build_evicts_counterexample:
  "fst (CryptonightR_build_program (example_externals (- 5) 0 0) example_ctx VARIANT_4 100 None
          ''src'' ''opt'' ''h'' (example_state [example_entry 1 7])) = None \<and>
   CryptonightR_cache
     (snd (CryptonightR_build_program (example_externals (- 5) 0 0) example_ctx VARIANT_4 100 None
             ''src'' ''opt'' ''h'' (example_state [example_entry 1 7])))
     \<noteq> CryptonightR_cache (example_state [example_entry 1 7])"
  by (simp add: CryptonightR_build_program_def compile_program_def remove_old_programs_def
      release_old_kernel_def emit_def Let_def remove_old_loop.simps is_old_def cache_lookup_def
      key_matches_def example_defs CL_SUCCESS_def)

text \<open>
  C5, amended. When the lookup under the build lock misses and the build fails at program
  creation, at the build or at the wait for the build, \<open>CryptonightR_build_program\<close>
  returns null, logs the message with the status code, releases the program if one was
  created, and inserts nothing: the cache is the one the removal of old programs left.
\<close>

theorem failed_build_not_cached:
  assumes miss: "cache_lookup v h (ctx_deviceIdx ctx) hs
             (CryptonightR_cache (remove_old_programs ext v h (release_old_kernel old_kernel s)))
           = None"
  shows
  "(createProgramWithSource ext (opencl_ctx ctx) source = Inl ret \<longrightarrow>
      fst (CryptonightR_build_program ext ctx v h old_kernel source options hs s) = None \<and>
      CryptonightR_cache (snd (CryptonightR_build_program ext ctx v h old_kernel source options hs s))
        = CryptonightR_cache (remove_old_programs ext v h s) \<and>
      new_events (remove_old_programs ext v h (release_old_kernel old_kernel s))
          (snd (CryptonightR_build_program ext ctx v h old_kernel source options hs s))
        = [Lock CryptonightR_build_mutex, Lock CryptonightR_cache_mutex,
           Unlock CryptonightR_cache_mutex,
           CreateProgramWithSource (opencl_ctx ctx) source,
           LOG_ERR (''CryptonightR: clCreateProgramWithSource returned error ''
                    @ OclError_toString ext ret),
           Unlock CryptonightR_build_mutex]) \<and>
   (createProgramWithSource ext (opencl_ctx ctx) source = Inr p \<and>
    buildProgram ext p (DeviceID ctx) options \<noteq> CL_SUCCESS \<longrightarrow>
      fst (CryptonightR_build_program ext ctx v h old_kernel source options hs s) = None \<and>
      CryptonightR_cache (snd (CryptonightR_build_program ext ctx v h old_kernel source options hs s))
        = CryptonightR_cache (remove_old_programs ext v h s) \<and>
      new_events (remove_old_programs ext v h (release_old_kernel old_kernel s))
          (snd (CryptonightR_build_program ext ctx v h old_kernel source options hs s))
        = [Lock CryptonightR_build_mutex, Lock CryptonightR_cache_mutex,
           Unlock CryptonightR_cache_mutex,
           CreateProgramWithSource (opencl_ctx ctx) source,
           BuildProgram p (DeviceID ctx) options,
           ReleaseProgram (Some p),
           LOG_ERR (''CryptonightR: clBuildProgram returned error ''
                    @ OclError_toString ext (buildProgram ext p (DeviceID ctx) options)),
           Unlock CryptonightR_build_mutex]) \<and>
   (createProgramWithSource ext (opencl_ctx ctx) source = Inr p \<and>
    buildProgram ext p (DeviceID ctx) options = CL_SUCCESS \<and>
    wait_build ext p (DeviceID ctx) \<noteq> CL_SUCCESS \<longrightarrow>
      fst (CryptonightR_build_program ext ctx v h old_kernel source options hs s) = None \<and>
      CryptonightR_cache (snd (CryptonightR_build_program ext ctx v h old_kernel source options hs s))
        = CryptonightR_cache (remove_old_programs ext v h s) \<and>
      new_events (remove_old_programs ext v h (release_old_kernel old_kernel s))
          (snd (CryptonightR_build_program ext ctx v h old_kernel source options hs s))
        = [Lock CryptonightR_build_mutex, Lock CryptonightR_cache_mutex,
           Unlock CryptonightR_cache_mutex,
           CreateProgramWithSource (opencl_ctx ctx) source,
           BuildProgram p (DeviceID ctx) options,
           WaitBuild p (DeviceID ctx),
           ReleaseProgram (Some p),
           LOG_ERR (''CryptonightR: wait_build returned error ''
                    @ OclError_toString ext (wait_build ext p (DeviceID ctx))),
           Unlock CryptonightR_build_mutex])"
proof -
  let ?S = "remove_old_programs ext v h (release_old_kernel old_kernel s)"
  have c: "CryptonightR_cache ?S = CryptonightR_cache (remove_old_programs ext v h s)"
    by (simp add: remove_old_programs_cache)
  note eq = build_program_miss [OF miss, of source options]
  show ?thesis
    unfolding eq c [symmetric]
    by (simp add: compile_program_def Let_def new_events_def)
qed

theorem failed_build_not_cached_witness:
  "cache_lookup VARIANT_4 100 (ctx_deviceIdx example_ctx) ''h''
     (CryptonightR_cache (remove_old_programs (example_externals 0 (- 11) 0) VARIANT_4 100
        (release_old_kernel None (example_state [example_entry 1 7, example_entry 99 8]))))
     = None \<and>
   createProgramWithSource (example_externals 0 (- 11) 0) (opencl_ctx example_ctx) ''src'' = Inr 42 \<and>
   buildProgram (example_externals 0 (- 11) 0) 42 (DeviceID example_ctx) ''opt'' \<noteq> CL_SUCCESS \<and>
   fst (CryptonightR_build_program (example_externals 0 (- 11) 0) example_ctx VARIANT_4 100 None
          ''src'' ''opt'' ''h'' (example_state [example_entry 1 7, example_entry 99 8])) = None \<and>
   CryptonightR_cache
     (snd (CryptonightR_build_program (example_externals 0 (- 11) 0) example_ctx VARIANT_4 100 None
          ''src'' ''opt'' ''h'' (example_state [example_entry 1 7, example_entry 99 8])))
     = [example_entry 99 8]"
proof -
  let ?ext = "example_externals 0 (- 11) 0"
  let ?s = "example_state [example_entry 1 7, example_entry 99 8]"
  have c: "CryptonightR_cache (remove_old_programs ?ext VARIANT_4 100 ?s) = [example_entry 99 8]"
    by (simp add: example_defs remove_old_programs_def emit_def
        remove_old_loop.simps is_old_def Let_def)
  have miss: "cache_lookup VARIANT_4 100 (ctx_deviceIdx example_ctx) ''h''
     (CryptonightR_cache (remove_old_programs ?ext VARIANT_4 100 (release_old_kernel None ?s))) = None"
    using c by (simp add: release_old_kernel_def cache_lookup_def key_matches_def example_entry_def)
  have cr: "createProgramWithSource ?ext (opencl_ctx example_ctx) ''src'' = Inr 42"
    by (simp add: example_externals_def CL_SUCCESS_def)
  have bf: "buildProgram ?ext 42 (DeviceID example_ctx) ''opt'' \<noteq> CL_SUCCESS"
    by (simp add: example_externals_def CL_SUCCESS_def)
  from failed_build_not_cached [OF miss, where source = "''src''" and p = 42 and options = "''opt''"] cr bf
  have "fst (CryptonightR_build_program ?ext example_ctx VARIANT_4 100 None
          ''src'' ''opt'' ''h'' ?s) = None \<and>
      CryptonightR_cache (snd (CryptonightR_build_program ?ext example_ctx VARIANT_4 100 None
          ''src'' ''opt'' ''h'' ?s))
        = CryptonightR_cache (remove_old_programs ?ext VARIANT_4 100 ?s)"
    by blast
  with miss cr bf c show ?thesis by simp
qed

subsection \<open>\<open>CryptonightR_get_program\<close>\<close>

lemma strstr_Some:
  "strstr hay needle = Some k \<Longrightarrow>
     hay = take k hay @ needle @ drop (k + length needle) hay \<and>
     (\<forall>j < k. \<not> prefix needle (drop j hay))"
proof (induction hay arbitrary: k)
  case Nil
  then show ?case by (simp split: if_splits)
next
  case (Cons c cs)
  show ?case
  proof (cases "prefix needle (c # cs)")
    case True
    with Cons.prems have "k = 0" by simp
    with True show ?thesis by (auto simp: prefix_def)
  next
    case False
    with Cons.prems obtain k' where k': "strstr cs needle = Some k'" "k = Suc k'"
      by auto
    from Cons.IH [OF k'(1)] False k'(2) show ?thesis
      by (auto simp: less_Suc_eq_0_disj)
  qed
qed

lemma strstr_None: "strstr hay needle = None \<longleftrightarrow> \<not> sublist needle hay"
  by (induction hay) (auto simp: sublist_Cons_right)

lemma strstr_first:
  assumes "strstr hay needle = Some k" and "hay = pre @ needle @ post"
  shows "k \<le> length pre"
proof (rule ccontr)
  assume "\<not> k \<le> length pre"
  then have "length pre < k" by simp
  with strstr_Some [OF assms(1)] have "\<not> prefix needle (drop (length pre) hay)" by blast
  with assms(2) show False by simp
qed

lemma prepare_request_ctx:
  "prepare_request ext ctx v h = Inr (ctx', source, options, hs) \<Longrightarrow>
     ctx_deviceIdx ctx' = ctx_deviceIdx ctx"
  by (auto simp: prepare_request_def Let_def split: option.splits Variant.splits if_splits prod.splits)

lemma prepare_request_source:
  "prepare_request ext ctx v h = Inr (ctx', source, options, hs) \<Longrightarrow>
   strstr (source_code_template ext) include_name = Some off \<Longrightarrow>
     source = assemble_source (source_code_template ext) off
                (get_code (fst (v4_random_math_init ext v h)) (snd (v4_random_math_init ext v h)))"
  by (auto simp: prepare_request_def Let_def split: option.splits Variant.splits if_splits prod.splits)

lemma get_program_first_hit:
  assumes "prepare_request ext ctx v h = Inr (ctx', source, options, hs)"
    and "cache_lookup v h (ctx_deviceIdx ctx') hs (CryptonightR_cache s) = Some entry"
  shows "CryptonightR_get_program ext ctx v h False old_kernel s =
           (Some (program entry), ctx',
            s\<lparr>trace := trace s @ [Lock CryptonightR_cache_mutex, Unlock CryptonightR_cache_mutex]\<rparr>)"
  using assms by (simp add: CryptonightR_get_program_def Let_def emit_def)

lemma get_program_first_miss:
  assumes "prepare_request ext ctx v h = Inr (ctx', source, options, hs)"
    and "cache_lookup v h (ctx_deviceIdx ctx') hs (CryptonightR_cache s) = None"
  shows "CryptonightR_get_program ext ctx v h False old_kernel s =
           (fst (CryptonightR_build_program ext ctx' v h old_kernel source options hs
                   (s\<lparr>trace := trace s @
                        [Lock CryptonightR_cache_mutex, Unlock CryptonightR_cache_mutex]\<rparr>)),
            ctx',
            snd (CryptonightR_build_program ext ctx' v h old_kernel source options hs
                   (s\<lparr>trace := trace s @
                        [Lock CryptonightR_cache_mutex, Unlock CryptonightR_cache_mutex]\<rparr>)))"
  using assms by (simp add: CryptonightR_get_program_def Let_def emit_def split: prod.splits)

lemma get_program_rejected:
  assumes "prepare_request ext ctx v h = Inl (msg, ctx')"
  shows "CryptonightR_get_program ext ctx v h False old_kernel s =
           (None, ctx', (case msg of None \<Rightarrow> s | Some m \<Rightarrow> emit (LOG_ERR m) s))"
  using assms by (simp add: CryptonightR_get_program_def)

lemma compile_program_Some:
  "compile_program ext ctx v h source options hs s = (Some p, s') \<Longrightarrow>
     CryptonightR_cache s' = CryptonightR_cache s @
       [\<lparr>variant = v, height = h, deviceIdx = ctx_deviceIdx ctx, hash = hs, program = p\<rparr>]"
  by (auto simp: compile_program_def Let_def split: sum.splits if_splits)

lemma build_program_Some:
  assumes "CryptonightR_build_program ext ctx v h old_kernel source options hs s = (Some p, s')"
  shows "\<exists>e \<in> set (CryptonightR_cache s').
           program e = p \<and> variant e = v \<and> height e = h \<and>
           deviceIdx e = ctx_deviceIdx ctx \<and> hash e = hs"
proof (cases "cache_lookup v h (ctx_deviceIdx ctx) hs
             (CryptonightR_cache (remove_old_programs ext v h (release_old_kernel old_kernel s)))")
  case (Some entry)
  from assms build_program_hit [OF Some, of source options] cache_lookup_Some [OF Some]
  show ?thesis by auto
next
  case None
  from assms build_program_miss [OF None, of source options]
  have "compile_program ext ctx v h source options hs
            ((remove_old_programs ext v h (release_old_kernel old_kernel s))
              \<lparr>trace := trace (remove_old_programs ext v h (release_old_kernel old_kernel s)) @
                 [Lock CryptonightR_build_mutex, Lock CryptonightR_cache_mutex,
                  Unlock CryptonightR_cache_mutex]\<rparr>) = (Some p, s')"
    by simp
  from compile_program_Some [OF this] show ?thesis
    by simp
qed

text \<open>
  C9. When the first lookup of a synchronous \<open>CryptonightR_get_program\<close> finds an entry,
  the call returns that entry's program; the state is the one before the call but for the
  lock and unlock of the cache in the trace. So the cache is unchanged, nothing is removed
  or inserted, no OpenCL call is made and the outgoing kernel is not released.
\<close>

theorem first_lookup_hit_changes_nothing:
  assumes "prepare_request ext ctx v h = Inr (ctx', source, options, hs)"
    and "cache_lookup v h (ctx_deviceIdx ctx') hs (CryptonightR_cache s) = Some entry"
  shows "CryptonightR_get_program ext ctx v h False old_kernel s =
           (Some (program entry), ctx',
            s\<lparr>trace := trace s @ [Lock CryptonightR_cache_mutex, Unlock CryptonightR_cache_mutex]\<rparr>)
         \<and> CryptonightR_cache (snd (snd (CryptonightR_get_program ext ctx v h False old_kernel s)))
             = CryptonightR_cache s
         \<and> new_events s (snd (snd (CryptonightR_get_program ext ctx v h False old_kernel s)))
             = [Lock CryptonightR_cache_mutex, Unlock CryptonightR_cache_mutex]"
  by (simp add: get_program_first_hit [OF assms] new_events_def)

lemma get_program_returns_cached:
  assumes "CryptonightR_get_program ext ctx v h False old_kernel s = (Some p, ctx', s')"
  shows "\<exists>source options hs.
           prepare_request ext ctx v h = Inr (ctx', source, options, hs) \<and>
           (\<exists>e \<in> set (CryptonightR_cache s').
              program e = p \<and> variant e = v \<and> height e = h \<and>
              deviceIdx e = ctx_deviceIdx ctx \<and> hash e = hs)"
proof (cases "prepare_request ext ctx v h")
  case (Inl a)
  then obtain msg c where "prepare_request ext ctx v h = Inl (msg, c)"
    by (cases a) simp
  from get_program_rejected [OF this, of old_kernel s] assms show ?thesis
    by simp
next
  case (Inr b)
  then obtain c source options hs where
    pr: "prepare_request ext ctx v h = Inr (c, source, options, hs)"
    by (cases b) auto
  note dev = prepare_request_ctx [OF pr]
  show ?thesis
  proof (cases "cache_lookup v h (ctx_deviceIdx c) hs (CryptonightR_cache s)")
    case (Some entry)
    from get_program_first_hit [OF pr Some, of old_kernel] assms
    have "p = program entry" "c = ctx'"
      "s' = s\<lparr>trace := trace s @ [Lock CryptonightR_cache_mutex, Unlock CryptonightR_cache_mutex]\<rparr>"
      by simp_all
    with cache_lookup_Some [OF Some] pr dev show ?thesis
      by auto
  next
    case None
    let ?s = "s\<lparr>trace := trace s @
                        [Lock CryptonightR_cache_mutex, Unlock CryptonightR_cache_mutex]\<rparr>"
    from get_program_first_miss [OF pr None, of old_kernel] assms
    have "c = ctx'"
      "CryptonightR_build_program ext c v h old_kernel source options hs ?s = (Some p, s')"
      by (simp_all add: prod_eq_iff)
    with build_program_Some [of ext c v h old_kernel source options hs ?s p s'] pr dev
    show ?thesis
      by auto
  qed
qed

lemma example_get_code:
  "get_code [\<lparr>opcode = MUL, dst_index = 0, src_index = 1, C = 0\<rparr>,
             \<lparr>opcode = XOR, dst_index = 2, src_index = 3, C = 0\<rparr>] 2
   = ''r0*=r1;'' @ [newline] @ ''r2^=r3;'' @ [newline]"
  by (simp add: get_code_def get_code_loop.simps put_instruction_def put_char_def put_str_def
      put_uint_def decimal.simps digit_char_def)

lemma example_strstr:
  "strstr ''A;XMRIG_INCLUDE_RANDOM_MATH;B'' include_name = Some 2"
  by (simp add: include_name_def)

lemma example_prepare:
  "prepare_request (example_externals cr br wr) example_ctx VARIANT_4 100 =
     Inr (example_ctx, ''A;r0*=r1;'' @ [newline] @ ''r2^=r3;'' @ [newline] @ '';B'',
          ''-O2 -DVARIANT=13'', ''h'')"
  by (simp add: prepare_request_def example_externals_def example_strstr example_get_code
      assemble_source_def build_options_def is_64bit_def decimal_int_def decimal.simps
      digit_char_def example_ctx_def include_name_def)

theorem first_lookup_hit_changes_nothing_witness:
  "prepare_request (example_externals 0 0 0) example_ctx VARIANT_4 100 =
     Inr (example_ctx, ''A;r0*=r1;'' @ [newline] @ ''r2^=r3;'' @ [newline] @ '';B'',
          ''-O2 -DVARIANT=13'', ''h'') \<and>
   cache_lookup VARIANT_4 100 (ctx_deviceIdx example_ctx) ''h''
     (CryptonightR_cache (example_state [example_entry 99 8, example_entry 100 7]))
     = Some (example_entry 100 7) \<and>
   CryptonightR_get_program (example_externals 0 0 0) example_ctx VARIANT_4 100 False (Some 9)
     (example_state [example_entry 99 8, example_entry 100 7])
   = (Some 7, example_ctx,
      \<lparr>CryptonightR_cache = [example_entry 99 8, example_entry 100 7], background_tasks = [],
       background_thread = False,
       trace = [Lock CryptonightR_cache_mutex, Unlock CryptonightR_cache_mutex]\<rparr>)"
proof -
  have hit: "cache_lookup VARIANT_4 100 (ctx_deviceIdx example_ctx) ''h''
     (CryptonightR_cache (example_state [example_entry 99 8, example_entry 100 7]))
     = Some (example_entry 100 7)"
    by (simp add: cache_lookup_def key_matches_def example_defs)
  from first_lookup_hit_changes_nothing [OF example_prepare hit, where old_kernel = "Some 9"] hit example_prepare
  show ?thesis
    by (simp add: example_state_def example_entry_def)
qed

lemma example_cold_run:
  "CryptonightR_get_program (example_externals 0 0 0) example_ctx VARIANT_4 100 False None
     (example_state [])
   = (Some 42, example_ctx,
      \<lparr>CryptonightR_cache = [example_entry 100 42], background_tasks = [],
       background_thread = False,
       trace = [Lock CryptonightR_cache_mutex, Unlock CryptonightR_cache_mutex,
                Lock CryptonightR_cache_mutex, Unlock CryptonightR_cache_mutex,
                Lock CryptonightR_build_mutex,
                Lock CryptonightR_cache_mutex, Unlock CryptonightR_cache_mutex,
                CreateProgramWithSource 0
                  (''A;r0*=r1;'' @ [newline] @ ''r2^=r3;'' @ [newline] @ '';B''),
                BuildProgram 42 0 ''-O2 -DVARIANT=13'',
                WaitBuild 42 0,
                Lock CryptonightR_cache_mutex, Unlock CryptonightR_cache_mutex,
                Unlock CryptonightR_build_mutex]\<rparr>)"
proof -
  have miss: "cache_lookup VARIANT_4 100 (ctx_deviceIdx example_ctx) ''h''
     (CryptonightR_cache (example_state [])) = None"
    by (simp add: cache_lookup_def example_state_def)
  show ?thesis
    unfolding get_program_first_miss [OF example_prepare miss]
    by (simp add: example_state_def
      CryptonightR_build_program_def release_old_kernel_def remove_old_programs_def
      remove_old_loop.simps compile_program_def emit_def Let_def example_externals_def
      example_ctx_def CL_SUCCESS_def example_entry_def cache_lookup_def)
qed

subsection \<open>Release of a device context\<close>

text \<open>
  What \<open>CryptonightR_release\<close> does, for every context and state: it releases the
  context's own program, then removes the entries of the device under the cache lock. The
  programs of the removed entries do not occur in the trace.
\<close>

lemma CryptonightR_release_effect:
  "trace (CryptonightR_release ctx s) =
     trace s @ [ReleaseProgram (ProgramCryptonightR ctx),
                Lock CryptonightR_cache_mutex, Unlock CryptonightR_cache_mutex] \<and>
   mset (CryptonightR_cache (CryptonightR_release ctx s)) =
     filter_mset (\<lambda>e. deviceIdx e \<noteq> ctx_deviceIdx ctx) (mset (CryptonightR_cache s))"
  using release_loop_mset [of 0 "CryptonightR_cache s" "ctx_deviceIdx ctx"]
  by (simp add: CryptonightR_release_def Let_def)

text \<open>
  C1. The claim asks that \<open>CryptonightR_release\<close> release the program of every entry it
  removes. On a cache with an entry of device 0 (program 7) and one of device 1 (program 8),
  releasing the context of device 0 (own program 5) removes the first entry and releases
  program 5 only: program 7 leaves the cache and is never released.
\<close>

theorem CryptonightR_release_drops_cached_program:
  "CryptonightR_release example_ctx
     (example_state [example_entry 100 7, (example_entry 100 8)\<lparr>deviceIdx := 1\<rparr>])
   = \<lparr>CryptonightR_cache = [(example_entry 100 8)\<lparr>deviceIdx := 1\<rparr>],
      background_tasks = [], background_thread = False,
      trace = [ReleaseProgram (Some 5),
               Lock CryptonightR_cache_mutex, Unlock CryptonightR_cache_mutex]\<rparr>"
  by (simp add: CryptonightR_release_def Let_def emit_def release_loop.simps example_defs)

subsection \<open>The outgoing kernel\<close>

text \<open>
  \<open>CryptonightR_build_program\<close> releases the outgoing kernel before anything else, on every
  path through it, the hit of its own lookup included.
\<close>

lemma build_program_releases_old_kernel_first:
  "\<exists>rest. trace (snd (CryptonightR_build_program ext ctx v h (Some k) source options hs s)) =
      trace s @ ReleaseKernel k # rest"
  using build_program_trace [of ext ctx v h "Some k" source options hs s]
  by auto

text \<open>
  C2. The claim asks that a synchronous call release the outgoing kernel whether it is served
  from the cache or by a build. A call served by the first lookup (line 314) returns the
  cached program 7 and does nothing but lock and unlock the cache: kernel 9 is not
  released.
\<close>

theorem first_lookup_hit_keeps_old_kernel:
  "CryptonightR_get_program (example_externals 0 0 0) example_ctx VARIANT_4 100 False (Some 9)
     (example_state [example_entry 100 7])
   = (Some 7, example_ctx,
      \<lparr>CryptonightR_cache = [example_entry 100 7], background_tasks = [],
       background_thread = False,
       trace = [Lock CryptonightR_cache_mutex, Unlock CryptonightR_cache_mutex]\<rparr>)"
proof -
  have hit: "cache_lookup VARIANT_4 100 (ctx_deviceIdx example_ctx) ''h''
     (CryptonightR_cache (example_state [example_entry 100 7])) = Some (example_entry 100 7)"
    by (simp add: cache_lookup_def key_matches_def example_defs)
  show ?thesis
    unfolding get_program_first_hit [OF example_prepare hit]
    by (simp add: example_state_def example_entry_def)
qed

subsection \<open>The marker in the template\<close>

lemma include_name_nonempty: "include_name \<noteq> []"
  by (simp add: include_name_def)

lemma first_occurrence_strstr:
  assumes split: "hay = pre @ needle @ post"
    and first: "\<not> sublist needle (pre @ butlast needle)"
    and ne: "needle \<noteq> []"
  shows "strstr hay needle = Some (length pre)"
proof -
  from split have "sublist needle hay" by (auto simp: sublist_def)
  then obtain k where k: "strstr hay needle = Some k"
    using strstr_None [of hay needle] by (cases "strstr hay needle") auto
  from strstr_first [OF k split] have le: "k \<le> length pre" .
  have "k = length pre"
  proof (rule ccontr)
    assume "k \<noteq> length pre"
    with le have lt: "k < length pre" by simp
    from strstr_Some [OF k] have occ: "hay = take k hay @ needle @ drop (k + length needle) hay"
      by blast
    let ?U = "pre @ butlast needle"
    have U: "hay = ?U @ [last needle] @ post"
      using split ne by simp
    have p1: "prefix (take k hay @ needle) hay"
      using occ by (metis append.assoc prefixI)
    have p2: "prefix ?U hay"
      using U by (metis prefixI)
    have "length (take k hay) = k"
      using lt split by simp
    then have "length (take k hay @ needle) \<le> length ?U"
      using lt ne by (simp add: Suc_leI)
    from prefix_length_prefix [OF p1 p2 this] obtain rest where
      "?U = (take k hay @ needle) @ rest"
      by (auto simp: prefix_def)
    then have "sublist needle ?U"
      by (auto simp: sublist_def)
    with first show False by simp
  qed
  with k show ?thesis by simp
qed

lemma strstr_first_occurrence:
  assumes k: "strstr hay needle = Some k" and ne: "needle \<noteq> []"
  shows "\<not> sublist needle (take k hay @ butlast needle)"
proof
  define t d where "t = take k hay" and "d = drop (k + length needle) hay"
  assume "sublist needle (take k hay @ butlast needle)"
  then obtain a b where ab: "t @ butlast needle = a @ needle @ b"
    by (auto simp: sublist_def t_def)
  from strstr_Some [OF k] have occ: "hay = t @ needle @ d"
    unfolding t_def d_def by blast
  have "needle = butlast needle @ [last needle]"
    using ne by simp
  with occ have "hay = (t @ butlast needle) @ [last needle] @ d"
    by (metis append.assoc)
  then have "hay = a @ needle @ (b @ [last needle] @ d)"
    by (simp add: ab)
  from strstr_first [OF k this] have "k \<le> length a" .
  moreover have "length (t @ butlast needle) = length (a @ needle @ b)"
    by (simp only: ab)
  then have "length a + length needle \<le> k + (length needle - 1)"
    by (simp add: t_def)
  ultimately show False using ne by (cases needle) auto
qed

lemma prepare_request_accepts:
  assumes "strstr (source_code_template ext) include_name = Some off"
    and "v = VARIANT_WOW \<or> v = VARIANT_4"
    and "DeviceString ctx \<noteq> [] \<or>
         fst (get_device_string ext (platformIdx ctx) (DeviceID ctx) (DeviceString ctx))"
  shows "\<exists>ctx' options hs.
           prepare_request ext ctx v h =
             Inr (ctx',
                  assemble_source (source_code_template ext) off
                    (get_code (fst (v4_random_math_init ext v h)) (snd (v4_random_math_init ext v h))),
                  options, hs) \<and>
           opencl_ctx ctx' = opencl_ctx ctx"
  using assms
  by (auto simp: prepare_request_def Let_def split: prod.splits)

lemma remove_old_loop_set:
  "set (fst (remove_old_loop v h depth 0 cache [])) = {e \<in> set cache. \<not> is_old v h depth e}"
proof -
  have "set_mset (mset (fst (remove_old_loop v h depth 0 cache []))) =
        set_mset (filter_mset (\<lambda>e. \<not> is_old v h depth e) (mset cache))"
    using remove_old_loop_mset [of 0 cache v h depth "[]"] by simp
  then show ?thesis by simp
qed

lemma recheck_misses_after_miss:
  assumes "cache_lookup v h dev hs (CryptonightR_cache s) = None"
  shows "cache_lookup v h dev hs
           (CryptonightR_cache (remove_old_programs ext v' h' (release_old_kernel k s))) = None"
  using assms
  by (simp add: cache_lookup_None remove_old_programs_cache remove_old_loop_set)

lemma compile_program_creates:
  "\<exists>rest. trace (snd (compile_program ext ctx v h source options hs s)) =
      trace s @ CreateProgramWithSource (opencl_ctx ctx) source # rest"
  by (auto simp: compile_program_def Let_def split: sum.splits)

lemma cold_call_creates:
  assumes pr: "prepare_request ext ctx v h = Inr (ctx', source, options, hs)"
    and miss: "cache_lookup v h (ctx_deviceIdx ctx') hs (CryptonightR_cache s) = None"
  shows "CreateProgramWithSource (opencl_ctx ctx') source
           \<in> set (new_events s (snd (snd (CryptonightR_get_program ext ctx v h False old_kernel s))))"
proof -
  let ?s = "s\<lparr>trace := trace s @ [Lock CryptonightR_cache_mutex, Unlock CryptonightR_cache_mutex]\<rparr>"
  let ?S = "remove_old_programs ext v h (release_old_kernel old_kernel ?s)"
  let ?S' = "?S\<lparr>trace := trace ?S @ [Lock CryptonightR_build_mutex, Lock CryptonightR_cache_mutex,
                  Unlock CryptonightR_cache_mutex]\<rparr>"
  have miss': "cache_lookup v h (ctx_deviceIdx ctx') hs (CryptonightR_cache ?S) = None"
    by (rule recheck_misses_after_miss) (simp add: miss)
  have g: "snd (snd (CryptonightR_get_program ext ctx v h False old_kernel s)) =
      snd (compile_program ext ctx' v h source options hs ?S')"
    by (simp only: get_program_first_miss [OF pr miss] build_program_miss [OF miss'] snd_conv)
  obtain rest where rest: "trace (snd (compile_program ext ctx' v h source options hs ?S')) =
      trace ?S' @ CreateProgramWithSource (opencl_ctx ctx') source # rest"
    using compile_program_creates by blast
  obtain es where es: "trace ?S = trace s @ es"
    by (simp add: remove_old_programs_trace release_old_kernel_trace)
  have "trace (snd (snd (CryptonightR_get_program ext ctx v h False old_kernel s))) =
      trace s @ (es @ [Lock CryptonightR_build_mutex, Lock CryptonightR_cache_mutex,
                  Unlock CryptonightR_cache_mutex] @
                 CreateProgramWithSource (opencl_ctx ctx') source # rest)"
    by (simp only: g rest) (simp add: es)
  from new_events_append [OF this] show ?thesis
    by simp
qed

text \<open>
  C7. If the template contains \<open>XMRIG_INCLUDE_RANDOM_MATH\<close>, it splits at the first
  occurrence into the text before the marker, the marker and the text after it. For such a
  split, a synchronous request with variant WOW or 4 whose device string is known or can be
  resolved is accepted with the source: text before, output of \<open>get_code\<close>, text after
  (and no accepted request has another source); when the first lookup misses, this source
  is the one handed to \<open>createProgramWithSource\<close>. If the template does not contain the
  marker, a synchronous \<open>CryptonightR_get_program\<close> logs the error and returns null; the
  state is otherwise unchanged, so nothing is built.
\<close>

theorem marker_splice:
  "(sublist include_name (source_code_template ext) \<longrightarrow>
      (\<exists>pre post. source_code_template ext = pre @ include_name @ post \<and>
                  \<not> sublist include_name (pre @ butlast include_name))) \<and>
   (source_code_template ext = pre @ include_name @ post \<and>
    \<not> sublist include_name (pre @ butlast include_name) \<longrightarrow>
      (\<forall>ctx' source options hs.
         prepare_request ext ctx v h = Inr (ctx', source, options, hs) \<longrightarrow>
         source = pre @ get_code (fst (v4_random_math_init ext v h))
                                 (snd (v4_random_math_init ext v h)) @ post) \<and>
      ((v = VARIANT_WOW \<or> v = VARIANT_4) \<and>
       (DeviceString ctx \<noteq> [] \<or>
        fst (get_device_string ext (platformIdx ctx) (DeviceID ctx) (DeviceString ctx))) \<longrightarrow>
         (\<exists>ctx' options hs.
            prepare_request ext ctx v h =
              Inr (ctx',
                   pre @ get_code (fst (v4_random_math_init ext v h))
                                  (snd (v4_random_math_init ext v h)) @ post,
                   options, hs) \<and>
            (cache_lookup v h (ctx_deviceIdx ctx') hs (CryptonightR_cache s) = None \<longrightarrow>
               CreateProgramWithSource (opencl_ctx ctx')
                   (pre @ get_code (fst (v4_random_math_init ext v h))
                                   (snd (v4_random_math_init ext v h)) @ post)
                 \<in> set (new_events s
                     (snd (snd (CryptonightR_get_program ext ctx v h False old_kernel s)))))))) \<and>
   (\<not> sublist include_name (source_code_template ext) \<longrightarrow>
      CryptonightR_get_program ext ctx v h False old_kernel s =
        (None, ctx,
         emit (LOG_ERR ''CryptonightR_get_program: XMRIG_INCLUDE_RANDOM_MATH not found in cryptonight_r.cl'')
           s))"
proof (intro conjI impI)
  let ?T = "source_code_template ext"
  assume "sublist include_name ?T"
  then obtain off where off: "strstr ?T include_name = Some off"
    using strstr_None [of ?T include_name] by (cases "strstr ?T include_name") auto
  from strstr_Some [OF off] strstr_first_occurrence [OF off include_name_nonempty]
  show "\<exists>pre post. ?T = pre @ include_name @ post \<and>
                  \<not> sublist include_name (pre @ butlast include_name)"
    by blast
next
  let ?T = "source_code_template ext"
  let ?frag = "get_code (fst (v4_random_math_init ext v h)) (snd (v4_random_math_init ext v h))"
  assume "?T = pre @ include_name @ post \<and> \<not> sublist include_name (pre @ butlast include_name)"
  then have split: "?T = pre @ include_name @ post"
    and off: "strstr ?T include_name = Some (length pre)"
    using first_occurrence_strstr [of ?T pre include_name post] include_name_nonempty by simp_all
  have asm: "assemble_source ?T (length pre) ?frag = pre @ ?frag @ post"
    by (simp add: assemble_source_def split)
  show "\<forall>ctx' source options hs.
         prepare_request ext ctx v h = Inr (ctx', source, options, hs) \<longrightarrow>
         source = pre @ ?frag @ post"
  proof (intro allI impI)
    fix ctx' source options hs
    assume "prepare_request ext ctx v h = Inr (ctx', source, options, hs)"
    from prepare_request_source [OF this off] asm show "source = pre @ ?frag @ post"
      by simp
  qed
  assume ok: "(v = VARIANT_WOW \<or> v = VARIANT_4) \<and>
       (DeviceString ctx \<noteq> [] \<or>
        fst (get_device_string ext (platformIdx ctx) (DeviceID ctx) (DeviceString ctx)))"
  then obtain ctx' options hs where
    pr: "prepare_request ext ctx v h = Inr (ctx', pre @ ?frag @ post, options, hs)"
    using prepare_request_accepts [OF off, of v ctx h] asm by auto
  show "\<exists>ctx' options hs.
            prepare_request ext ctx v h = Inr (ctx', pre @ ?frag @ post, options, hs) \<and>
            (cache_lookup v h (ctx_deviceIdx ctx') hs (CryptonightR_cache s) = None \<longrightarrow>
               CreateProgramWithSource (opencl_ctx ctx') (pre @ ?frag @ post)
                 \<in> set (new_events s
                     (snd (snd (CryptonightR_get_program ext ctx v h False old_kernel s)))))"
    using pr cold_call_creates [OF pr] by blast
next
  assume "\<not> sublist include_name (source_code_template ext)"
  then have "strstr (source_code_template ext) include_name = None"
    by (simp add: strstr_None)
  then have "prepare_request ext ctx v h =
      Inl (Some ''CryptonightR_get_program: XMRIG_INCLUDE_RANDOM_MATH not found in cryptonight_r.cl'',
           ctx)"
    by (simp add: prepare_request_def)
  from get_program_rejected [OF this]
  show "CryptonightR_get_program ext ctx v h False old_kernel s =
        (None, ctx,
         emit (LOG_ERR ''CryptonightR_get_program: XMRIG_INCLUDE_RANDOM_MATH not found in cryptonight_r.cl'')
           s)"
    by simp
qed

theorem marker_splice_witness:
  "source_code_template (example_externals 0 0 0) = ''A;'' @ include_name @ '';B'' \<and>
   \<not> sublist include_name (''A;'' @ butlast include_name) \<and>
   (\<exists>ctx' options hs.
      prepare_request (example_externals 0 0 0) example_ctx VARIANT_4 100 =
        Inr (ctx', ''A;'' @ (''r0*=r1;'' @ [newline] @ ''r2^=r3;'' @ [newline]) @ '';B'',
             options, hs) \<and>
      CreateProgramWithSource (opencl_ctx ctx')
          (''A;'' @ (''r0*=r1;'' @ [newline] @ ''r2^=r3;'' @ [newline]) @ '';B'')
        \<in> set (new_events (example_state [])
            (snd (snd (CryptonightR_get_program (example_externals 0 0 0) example_ctx VARIANT_4 100
                         False (Some 9) (example_state [])))))) \<and>
   \<not> sublist include_name
        (source_code_template ((example_externals 0 0 0)\<lparr>source_code_template := ''A;B''\<rparr>)) \<and>
   CryptonightR_get_program ((example_externals 0 0 0)\<lparr>source_code_template := ''A;B''\<rparr>)
       example_ctx VARIANT_4 100 False (Some 9) (example_state [])
     = (None, example_ctx,
        \<lparr>CryptonightR_cache = [], background_tasks = [], background_thread = False,
         trace = [LOG_ERR ''CryptonightR_get_program: XMRIG_INCLUDE_RANDOM_MATH not found in cryptonight_r.cl'']\<rparr>)"
proof -
  let ?ext = "example_externals 0 0 0"
  let ?src = "''A;'' @ (''r0*=r1;'' @ [newline] @ ''r2^=r3;'' @ [newline]) @ '';B''"
  have split: "source_code_template ?ext = ''A;'' @ include_name @ '';B''"
    by (simp add: example_externals_def include_name_def)
  have "strstr (''A;'' @ butlast include_name) include_name = None"
    by (simp add: include_name_def)
  then have first: "\<not> sublist include_name (''A;'' @ butlast include_name)"
    using strstr_None [of "''A;'' @ butlast include_name" include_name] by blast
  have frag: "get_code (fst (v4_random_math_init ?ext VARIANT_4 100))
                       (snd (v4_random_math_init ?ext VARIANT_4 100))
              = ''r0*=r1;'' @ [newline] @ ''r2^=r3;'' @ [newline]"
    using example_get_code by (simp add: example_externals_def)
  have dev: "DeviceString example_ctx \<noteq> []"
    by (simp add: example_ctx_def)
  have cold: "\<And>ctx' hs. cache_lookup VARIANT_4 100 (ctx_deviceIdx ctx') hs
                 (CryptonightR_cache (example_state [])) = None"
    by (simp add: cache_lookup_def example_state_def)
  note inst = marker_splice [where ext = "?ext" and pre = "''A;''" and post = "'';B''"
      and ctx = example_ctx and v = VARIANT_4 and h = 100 and s = "example_state []"
      and old_kernel = "Some 9", unfolded frag]
  note acc = inst [THEN conjunct2, THEN conjunct1, THEN mp, OF conjI [OF split first],
      THEN conjunct2, THEN mp, OF conjI [OF disjI2 [OF refl] disjI1 [OF dev]]]
  then obtain ctx' options hs where
    pr: "prepare_request ?ext example_ctx VARIANT_4 100 = Inr (ctx', ?src, options, hs)"
    and cr: "cache_lookup VARIANT_4 100 (ctx_deviceIdx ctx') hs
                 (CryptonightR_cache (example_state [])) = None \<longrightarrow>
      CreateProgramWithSource (opencl_ctx ctx') ?src
        \<in> set (new_events (example_state [])
            (snd (snd (CryptonightR_get_program ?ext example_ctx VARIANT_4 100
                         False (Some 9) (example_state [])))))"
    by (elim exE conjE) (rule that)
  have "cache_lookup VARIANT_4 100 (ctx_deviceIdx ctx') hs
          (CryptonightR_cache (example_state [])) = None"
    by (rule cold)
  with cr have "CreateProgramWithSource (opencl_ctx ctx') ?src
        \<in> set (new_events (example_state [])
            (snd (snd (CryptonightR_get_program ?ext example_ctx VARIANT_4 100
                         False (Some 9) (example_state [])))))"
    by (rule mp)
  with pr have c: "\<exists>ctx' options hs.
      prepare_request ?ext example_ctx VARIANT_4 100 = Inr (ctx', ?src, options, hs) \<and>
      CreateProgramWithSource (opencl_ctx ctx') ?src
        \<in> set (new_events (example_state [])
            (snd (snd (CryptonightR_get_program ?ext example_ctx VARIANT_4 100
                         False (Some 9) (example_state [])))))"
    by (intro exI conjI)
  have "strstr ''A;B'' include_name = None"
    by (simp add: include_name_def)
  then have "\<not> sublist include_name ''A;B''"
    using strstr_None [of "''A;B''" include_name] by blast
  then have b: "\<not> sublist include_name
        (source_code_template (?ext\<lparr>source_code_template := ''A;B''\<rparr>))"
    by simp
  from b marker_splice [where ext = "?ext\<lparr>source_code_template := ''A;B''\<rparr>"
      and ctx = example_ctx and v = VARIANT_4 and h = 100 and old_kernel = "Some 9"
      and s = "example_state []"]
  have d: "CryptonightR_get_program (?ext\<lparr>source_code_template := ''A;B''\<rparr>)
       example_ctx VARIANT_4 100 False (Some 9) (example_state [])
     = (None, example_ctx,
        emit (LOG_ERR ''CryptonightR_get_program: XMRIG_INCLUDE_RANDOM_MATH not found in cryptonight_r.cl'')
          (example_state []))"
    by blast
  from split first c b show ?thesis
    unfolding d by (simp add: emit_def example_state_def)
qed

subsection \<open>Threads\<close>

lemma thread_run_Returned [simp]:
  "thread_run ext r n (Returned res, s, locked) = (Returned res, s, locked)"
  by (cases n) (simp_all add: thread_step_def)

lemma thread_run_compile:
  "thread_run ext r (Suc (Suc (Suc (Suc (Suc n))))) (At_create, s, True) =
     (Returned (fst (compile_program ext (req_ctx r) (req_variant r) (req_height r)
                       (req_source r) (req_options r) (req_hash r) s)),
      snd (compile_program ext (req_ctx r) (req_variant r) (req_height r)
             (req_source r) (req_options r) (req_hash r) s),
      False)"
proof (cases "createProgramWithSource ext (opencl_ctx (req_ctx r)) (req_source r)")
  case (Inl ret)
  then show ?thesis
    by (simp add: thread_step_def compile_program_def Let_def)
next
  case (Inr p)
  show ?thesis
  proof (cases "buildProgram ext p (DeviceID (req_ctx r)) (req_options r) = CL_SUCCESS")
    case False
    with Inr show ?thesis
      by (simp add: thread_step_def compile_program_def Let_def)
  next
    case True
    with Inr show ?thesis
      by (cases "wait_build ext p (DeviceID (req_ctx r)) = CL_SUCCESS")
         (simp_all add: thread_step_def compile_program_def Let_def)
  qed
qed

lemma thread_run_build_program:
  "thread_run ext r (Suc (Suc (Suc (Suc (Suc (Suc (Suc (Suc (Suc (Suc n))))))))))
     (At_release_kernel, s, False) =
     (Returned (fst (CryptonightR_build_program ext (req_ctx r) (req_variant r) (req_height r)
                       (req_old_kernel r) (req_source r) (req_options r) (req_hash r) s)),
      snd (CryptonightR_build_program ext (req_ctx r) (req_variant r) (req_height r)
             (req_old_kernel r) (req_source r) (req_options r) (req_hash r) s),
      False)"
proof -
  let ?S = "remove_old_programs ext (req_variant r) (req_height r)
              (release_old_kernel (req_old_kernel r) s)"
  have to_recheck: "\<And>m. thread_run ext r (Suc (Suc (Suc (Suc m)))) (At_release_kernel, s, False) =
      thread_run ext r m (At_recheck, emit (Lock CryptonightR_build_mutex) ?S, True)"
    by (simp add: thread_step_def remove_old_programs_def Let_def split: prod.splits)
  show ?thesis
  proof (cases "cache_lookup (req_variant r) (req_height r) (ctx_deviceIdx (req_ctx r))
                  (req_hash r) (CryptonightR_cache ?S)")
    case (Some entry)
    show ?thesis
      unfolding to_recheck build_program_hit [OF Some]
      using Some by (simp add: thread_step_def Let_def emit_def)
  next
    case None
    have "thread_run ext r (Suc (Suc (Suc (Suc (Suc (Suc n)))))) 
            (At_recheck, emit (Lock CryptonightR_build_mutex) ?S, True) =
          thread_run ext r (Suc (Suc (Suc (Suc (Suc n)))))
            (At_create, ?S\<lparr>trace := trace ?S @ [Lock CryptonightR_build_mutex,
               Lock CryptonightR_cache_mutex, Unlock CryptonightR_cache_mutex]\<rparr>, True)"
      using None by (simp add: thread_step_def Let_def emit_def)
    then show ?thesis
      unfolding to_recheck build_program_miss [OF None] thread_run_compile .
  qed
qed

text \<open>
  A thread that runs alone, for at least the eleven steps of the longest path, does what
  \<open>CryptonightR_get_program\<close> does after it accepted the request: same result, same cache,
  same trace.
\<close>

lemma thread_run_is_get_program:
  assumes pr: "prepare_request ext ctx v h = Inr (ctx', source, options, hs)"
  shows "thread_run ext
           \<lparr>req_ctx = ctx', req_variant = v, req_height = h, req_old_kernel = old_kernel,
            req_source = source, req_options = options, req_hash = hs\<rparr>
           (Suc (Suc (Suc (Suc (Suc (Suc (Suc (Suc (Suc (Suc (Suc n)))))))))))
           (At_lookup, s, False)
         = (Returned (fst (CryptonightR_get_program ext ctx v h False old_kernel s)),
            snd (snd (CryptonightR_get_program ext ctx v h False old_kernel s)), False)"
proof (cases "cache_lookup v h (ctx_deviceIdx ctx') hs (CryptonightR_cache s)")
  case (Some entry)
  show ?thesis
    unfolding get_program_first_hit [OF pr Some]
    using Some by (simp add: thread_step_def Let_def emit_def)
next
  case None
  let ?r = "\<lparr>req_ctx = ctx', req_variant = v, req_height = h, req_old_kernel = old_kernel,
            req_source = source, req_options = options, req_hash = hs\<rparr>"
  let ?s = "s\<lparr>trace := trace s @ [Lock CryptonightR_cache_mutex, Unlock CryptonightR_cache_mutex]\<rparr>"
  have "thread_run ext ?r (Suc (Suc (Suc (Suc (Suc (Suc (Suc (Suc (Suc (Suc (Suc n)))))))))))
           (At_lookup, s, False) =
        thread_run ext ?r (Suc (Suc (Suc (Suc (Suc (Suc (Suc (Suc (Suc (Suc n))))))))))
           (At_release_kernel, ?s, False)"
    using None by (simp add: thread_step_def Let_def emit_def)
  also have "\<dots> = (Returned (fst (CryptonightR_build_program ext ctx' v h old_kernel source options hs ?s)),
      snd (CryptonightR_build_program ext ctx' v h old_kernel source options hs ?s), False)"
    using thread_run_build_program [of ext ?r n ?s] by simp
  finally show ?thesis
    unfolding get_program_first_miss [OF pr None] by simp
qed

lemma replicate_two: "replicate 2 x = [x, x]"
  by (simp add: numeral_2_eq_2)

lemmas thread_eval = replicate_two run.simps step_def thread_step_def initial_def example_request_def
  example_defs release_old_kernel_def remove_old_loop.simps is_old_def cache_lookup_def
  key_matches_def emit_def Let_def CL_SUCCESS_def






lemma build_calls_simps [simp]:
  "build_calls [] = 0"
  "build_calls (es @ fs) = build_calls es + build_calls fs"
  "build_calls (CreateProgramWithSource c src # es) = Suc (build_calls es)"
  "build_calls (Lock m # es) = build_calls es"
  "build_calls (Unlock m # es) = build_calls es"
  "build_calls (ReleaseProgram q # es) = build_calls es"
  "build_calls (ReleaseKernel k # es) = build_calls es"
  "build_calls (BuildProgram p d opts # es) = build_calls es"
  "build_calls (WaitBuild p d # es) = build_calls es"
  "build_calls (LOG_ERR msg # es) = build_calls es"
  by (simp_all add: build_calls_def is_create_def)

lemma build_calls_releases [simp]:
  "build_calls (map (\<lambda>p. ReleaseProgram (Some p)) ps) = 0"
  by (induction ps) simp_all
















lemma one_build_inv_lock: "one_build_inv ext reqs v h dev hs s0 cfg \<Longrightarrow> lock_inv reqs cfg"
  by (simp add: one_build_inv_def lock_inv_def)




lemma thread_step_obtains_cached:
  assumes "thread_step ext r at s locked = Some (at', s', locked')"
    and "at' = At_return (Some p) \<or> (at = At_lookup \<and> at' = Returned (Some p))"
  shows "\<exists>e \<in> set (CryptonightR_cache s').
           program e = p \<and> variant e = req_variant r \<and> height e = req_height r \<and>
           deviceIdx e = ctx_deviceIdx (req_ctx r) \<and> hash e = req_hash r"
proof (cases at)
  case At_lookup
  with assms show ?thesis
    by (auto simp: thread_step_def Let_def split: option.splits dest!: cache_lookup_Some)
next
  case At_recheck
  with assms show ?thesis
    by (auto simp: thread_step_def Let_def split: option.splits dest!: cache_lookup_Some)
next
  case (At_insert q)
  with assms show ?thesis
    by (auto simp: thread_step_def Let_def)
qed (use assms in \<open>auto simp: thread_step_def Let_def split: sum.splits if_splits prod.splits\<close>)

text \<open>
  C10 as stated fails: thread 0 builds and inserts the entry of height 100 and drops the
  cache lock (line 239); before it returns (line 240), thread 1, a request for height 102,
  removes that entry in its removal step, which needs the cache lock only. Thread 0 then
  returns handle 42 and the cache is empty.
\<close>

theorem returned_entry_evicted_counterexample:
  "run (example_externals 0 0 0) [example_request 100, example_request 102]
     [0, 0, 0, 0, 0, 0, 0, 0, 0, 0, 1, 1, 1, 0]
     (initial (example_state []) 2)
   = Some
      \<lparr>shared =
         \<lparr>CryptonightR_cache = [], background_tasks = [], background_thread = False,
          trace =
            [Lock CryptonightR_cache_mutex, Unlock CryptonightR_cache_mutex,
             Lock CryptonightR_cache_mutex, Unlock CryptonightR_cache_mutex,
             Lock CryptonightR_build_mutex,
             Lock CryptonightR_cache_mutex, Unlock CryptonightR_cache_mutex,
             CreateProgramWithSource 0 ''src'', BuildProgram 42 0 ''opt'', WaitBuild 42 0,
             Lock CryptonightR_cache_mutex, Unlock CryptonightR_cache_mutex,
             Lock CryptonightR_cache_mutex, Unlock CryptonightR_cache_mutex,
             Lock CryptonightR_cache_mutex, Unlock CryptonightR_cache_mutex,
             Unlock CryptonightR_build_mutex]\<rparr>,
       build_locked = False,
       pcs = [Returned (Some 42), At_release_programs [42]]\<rparr>"
  by (simp add: thread_eval)

text \<open>
  C10, amended. When a synchronous \<open>CryptonightR_get_program\<close> that runs without steps of
  other threads in between returns a program that is not null, the cache at the return holds
  an entry with that program and the request's variant, height, device index and hash. With
  other threads running, the entry is in the cache when the call leaves its last critical
  section on the cache with the handle (the hit of either lookup, or the insert).
\<close>

theorem returned_program_is_cached:
  "(CryptonightR_get_program ext ctx v h False old_kernel s = (Some p, ctx', s') \<longrightarrow>
      (\<exists>source options hs.
         prepare_request ext ctx v h = Inr (ctx', source, options, hs) \<and>
         (\<exists>e \<in> set (CryptonightR_cache s').
            program e = p \<and> variant e = v \<and> height e = h \<and>
            deviceIdx e = ctx_deviceIdx ctx \<and> hash e = hs))) \<and>
   (thread_step ext r pos t locked = Some (pos', t', locked') \<and>
    (pos' = At_return (Some q) \<or> (pos = At_lookup \<and> pos' = Returned (Some q))) \<longrightarrow>
      (\<exists>e \<in> set (CryptonightR_cache t').
         program e = q \<and> variant e = req_variant r \<and> height e = req_height r \<and>
         deviceIdx e = ctx_deviceIdx (req_ctx r) \<and> hash e = req_hash r))"
  using get_program_returns_cached [of ext ctx v h old_kernel s p ctx' s']
    thread_step_obtains_cached [of ext r pos t locked pos' t' locked' q]
  by blast

theorem returned_program_is_cached_witness:
  "CryptonightR_get_program (example_externals 0 0 0) example_ctx VARIANT_4 100 False None
     (example_state [])
   = (Some 42, example_ctx,
      \<lparr>CryptonightR_cache = [example_entry 100 42], background_tasks = [],
       background_thread = False,
       trace = [Lock CryptonightR_cache_mutex, Unlock CryptonightR_cache_mutex,
                Lock CryptonightR_cache_mutex, Unlock CryptonightR_cache_mutex,
                Lock CryptonightR_build_mutex,
                Lock CryptonightR_cache_mutex, Unlock CryptonightR_cache_mutex,
                CreateProgramWithSource 0
                  (''A;r0*=r1;'' @ [newline] @ ''r2^=r3;'' @ [newline] @ '';B''),
                BuildProgram 42 0 ''-O2 -DVARIANT=13'',
                WaitBuild 42 0,
                Lock CryptonightR_cache_mutex, Unlock CryptonightR_cache_mutex,
                Unlock CryptonightR_build_mutex]\<rparr>) \<and>
   (\<exists>source options hs.
      prepare_request (example_externals 0 0 0) example_ctx VARIANT_4 100
        = Inr (example_ctx, source, options, hs) \<and>
      (\<exists>e \<in> set [example_entry 100 42].
         program e = 42 \<and> variant e = VARIANT_4 \<and> height e = 100 \<and>
         deviceIdx e = ctx_deviceIdx example_ctx \<and> hash e = hs)) \<and>
   thread_step (example_externals 0 0 0) (example_request 100) (At_insert 42) (example_state []) True
     = Some (At_return (Some 42),
             \<lparr>CryptonightR_cache = [example_entry 100 42], background_tasks = [],
              background_thread = False,
              trace = [Lock CryptonightR_cache_mutex, Unlock CryptonightR_cache_mutex]\<rparr>,
             True) \<and>
   (\<exists>e \<in> set [example_entry 100 42].
      program e = 42 \<and> variant e = req_variant (example_request 100) \<and>
      height e = req_height (example_request 100) \<and>
      deviceIdx e = ctx_deviceIdx (req_ctx (example_request 100)) \<and>
      hash e = req_hash (example_request 100))"
proof -
  have st: "thread_step (example_externals 0 0 0) (example_request 100) (At_insert 42)
              (example_state []) True
     = Some (At_return (Some 42),
             \<lparr>CryptonightR_cache = [example_entry 100 42], background_tasks = [],
              background_thread = False,
              trace = [Lock CryptonightR_cache_mutex, Unlock CryptonightR_cache_mutex]\<rparr>,
             True)"
    by (simp add: thread_step_def example_request_def example_defs emit_def Let_def)
  note a0 = returned_program_is_cached [THEN conjunct1, THEN mp, OF example_cold_run]
  note b0 = returned_program_is_cached [THEN conjunct2, THEN mp,
      OF conjI [OF st disjI1 [OF refl]]]
  from a0 have a: "\<exists>source options hs.
      prepare_request (example_externals 0 0 0) example_ctx VARIANT_4 100
        = Inr (example_ctx, source, options, hs) \<and>
      (\<exists>e \<in> set [example_entry 100 42].
         program e = 42 \<and> variant e = VARIANT_4 \<and> height e = 100 \<and>
         deviceIdx e = ctx_deviceIdx example_ctx \<and> hash e = hs)"
    by simp
  from b0 have b: "\<exists>e \<in> set [example_entry 100 42].
      program e = 42 \<and> variant e = req_variant (example_request 100) \<and>
      height e = req_height (example_request 100) \<and>
      deviceIdx e = ctx_deviceIdx (req_ctx (example_request 100)) \<and>
      hash e = req_hash (example_request 100)"
    by simp
  from example_cold_run st a b show ?thesis
    by (intro conjI)
qed

end
